theory Spec2Isabelle
  imports Main "HOL-Library.Sublist" "HOL-Library.Char_ord" "HOL-Library.List_Lexorder"
begin

section \<open>Python values\<close>

text \<open>
  The issue handlers work on untyped records: the dicts decoded from the tracker's JSON
  answers and from the cache file. A value is therefore one of the JSON shapes, plus the
  \<open>Version\<close> objects of the \<open>packaging\<close> library that the code compares fix versions
  with. A \<open>Version\<close> is represented by its release segment (\<open>6.10\<close> is \<open>[6, 10]\<close>);
  epochs, pre-, post- and development releases do not occur in the versions handled here
  and are left out. Dicts are association lists with string keys, looked up with
  \<open>map_of\<close>. Floating-point numbers are left out.
\<close>

datatype pyval =
    PNone
  | PBool bool
  | PInt int
  | PStr string
  | PVersion "nat list"
  | PList "pyval list"
  | PDict "(string \<times> pyval) list"

datatype error =
    TypeError
  | ValueError
  | KeyError
  | AttributeError
  | IndexError
  | RecursionError
  | RetryError
  | HTTPError

definition ebind :: "error + 'a \<Rightarrow> ('a \<Rightarrow> error + 'b) \<Rightarrow> error + 'b" where
  "ebind m f = (case m of Inl e \<Rightarrow> Inl e | Inr x \<Rightarrow> f x)"

text \<open>Truth value testing: \<open>None\<close>, \<open>False\<close>, zero and empty containers are false. A
  \<open>Version\<close> defines neither \<open>__bool__\<close> nor \<open>__len__\<close>, so every \<open>Version\<close> is true.\<close>

fun truthy :: "pyval \<Rightarrow> bool" where
  "truthy PNone = False"
| "truthy (PBool b) = b"
| "truthy (PInt i) = (i \<noteq> 0)"
| "truthy (PStr s) = (s \<noteq> [])"
| "truthy (PVersion v) = True"
| "truthy (PList xs) = (xs \<noteq> [])"
| "truthy (PDict kvs) = (kvs \<noteq> [])"

text \<open>\<open>x or y\<close> returns one of its operands.\<close>

definition py_or :: "pyval \<Rightarrow> pyval \<Rightarrow> pyval" where
  "py_or x y = (if truthy x then x else y)"

text \<open>The release segment is compared with its trailing zeros removed, as
  \<open>packaging\<close> does: \<open>Version('6.10') == Version('6.10.0')\<close>.\<close>

definition release_key :: "nat list \<Rightarrow> nat list" where
  "release_key v = rev (dropWhile (\<lambda>n. n = 0) (rev v))"

text \<open>\<open>==\<close>: by value within a type, \<open>True == 1\<close>, dicts regardless of order, never an error.\<close>

fun py_eq :: "pyval \<Rightarrow> pyval \<Rightarrow> bool" where
  "py_eq PNone PNone = True"
| "py_eq (PBool a) (PBool b) = (a = b)"
| "py_eq (PBool a) (PInt b) = ((if a then 1 else 0) = b)"
| "py_eq (PInt a) (PBool b) = (a = (if b then 1 else 0))"
| "py_eq (PInt a) (PInt b) = (a = b)"
| "py_eq (PStr a) (PStr b) = (a = b)"
| "py_eq (PVersion a) (PVersion b) = (release_key a = release_key b)"
| "py_eq (PList a) (PList b) = list_all2 py_eq a b"
| "py_eq (PDict a) (PDict b) =
     (set (map fst a) = set (map fst b) \<and>
      list_all (\<lambda>(k, v). list_all (\<lambda>(k', v'). if k = k' then py_eq v v' else True) b) a)"
| "py_eq _ _ = False"

text \<open>\<open><\<close>: numbers, strings (by code point), versions and lists (lexicographically)
  are ordered within their kind; every other pair raises \<open>TypeError\<close>. In particular a
  \<open>Version\<close> is comparable with another \<open>Version\<close> only.\<close>

fun py_lt :: "pyval \<Rightarrow> pyval \<Rightarrow> error + bool"
and lt_list :: "pyval list \<Rightarrow> pyval list \<Rightarrow> error + bool" where
  "py_lt (PBool a) (PBool b) = Inr (a < b)"
| "py_lt (PBool a) (PInt b) = Inr ((if a then 1 else 0) < b)"
| "py_lt (PInt a) (PBool b) = Inr (a < (if b then 1 else 0))"
| "py_lt (PInt a) (PInt b) = Inr (a < b)"
| "py_lt (PStr a) (PStr b) = Inr (a < b)"
| "py_lt (PVersion a) (PVersion b) = Inr (release_key a < release_key b)"
| "py_lt (PList a) (PList b) = lt_list a b"
| "py_lt _ _ = Inl TypeError"
| "lt_list [] [] = Inr False"
| "lt_list [] (y # ys) = Inr True"
| "lt_list (x # xs) [] = Inr False"
| "lt_list (x # xs) (y # ys) = (if py_eq x y then lt_list xs ys else py_lt x y)"

text \<open>Iteration: a list yields its elements, a string its characters, a dict its keys.\<close>

fun py_iter :: "pyval \<Rightarrow> error + pyval list" where
  "py_iter (PList xs) = Inr xs"
| "py_iter (PStr s) = Inr (map (\<lambda>c. PStr [c]) s)"
| "py_iter (PDict kvs) = Inr (map (\<lambda>kv. PStr (fst kv)) kvs)"
| "py_iter _ = Inl TypeError"

text \<open>\<open>min(iterable)\<close>: \<open>ValueError\<close> on an empty iterable; otherwise the first
  element is the candidate and a later element replaces it when it is smaller.\<close>

fun min_from :: "pyval \<Rightarrow> pyval list \<Rightarrow> error + pyval" where
  "min_from m [] = Inr m"
| "min_from m (x # xs) =
     (case py_lt x m of
        Inl e \<Rightarrow> Inl e
      | Inr b \<Rightarrow> min_from (if b then x else m) xs)"

definition py_min :: "pyval \<Rightarrow> error + pyval" where
  "py_min v =
     (case py_iter v of
        Inl e \<Rightarrow> Inl e
      | Inr [] \<Rightarrow> Inl ValueError
      | Inr (x # xs) \<Rightarrow> min_from x xs)"

text \<open>\<open>len(x)\<close>, \<open>d.get(k)\<close> and \<open>d[k]\<close> with a string key.\<close>

fun py_len :: "pyval \<Rightarrow> error + nat" where
  "py_len (PStr s) = Inr (length s)"
| "py_len (PList xs) = Inr (length xs)"
| "py_len (PDict kvs) = Inr (length kvs)"
| "py_len _ = Inl TypeError"

fun dict_get :: "pyval \<Rightarrow> string \<Rightarrow> error + pyval" where
  "dict_get (PDict kvs) k = Inr (case map_of kvs k of None \<Rightarrow> PNone | Some v \<Rightarrow> v)"
| "dict_get _ k = Inl AttributeError"

fun py_getitem :: "pyval \<Rightarrow> string \<Rightarrow> error + pyval" where
  "py_getitem (PDict kvs) k = (case map_of kvs k of None \<Rightarrow> Inl KeyError | Some v \<Rightarrow> Inr v)"
| "py_getitem _ k = Inl TypeError"

text \<open>\<open>x in t\<close> for a tuple of strings \<open>t\<close> compares \<open>x\<close> with each member; \<open>x in s\<close> for a
  string \<open>s\<close> is the substring test and raises \<open>TypeError\<close> when \<open>x\<close> is not a string.\<close>

definition in_tuple :: "pyval \<Rightarrow> string list \<Rightarrow> bool" where
  "in_tuple x t = list_ex (\<lambda>s. py_eq x (PStr s)) t"

fun in_str :: "pyval \<Rightarrow> string \<Rightarrow> error + bool" where
  "in_str (PStr x) s = Inr (sublist x s)"
| "in_str _ s = Inl TypeError"

text \<open>\<open>k in x\<close> for a string \<open>k\<close>: a key of a dict, a substring of a string, a member of
  a list; \<open>TypeError\<close> for a value that is no container.\<close>

fun py_contains :: "pyval \<Rightarrow> string \<Rightarrow> error + bool" where
  "py_contains (PDict kvs) k = Inr (k \<in> set (map fst kvs))"
| "py_contains (PStr s) k = Inr (sublist k s)"
| "py_contains (PList xs) k = Inr (list_ex (\<lambda>x. py_eq x (PStr k)) xs)"
| "py_contains _ k = Inl TypeError"

text \<open>\<open>x[0]\<close>: the first element of a list, the first character of a string; a dict with
  string keys has no key \<open>0\<close>.\<close>

fun py_first :: "pyval \<Rightarrow> error + pyval" where
  "py_first (PList []) = Inl IndexError"
| "py_first (PList (x # xs)) = Inr x"
| "py_first (PStr []) = Inl IndexError"
| "py_first (PStr (c # cs)) = Inr (PStr [c])"
| "py_first (PDict kvs) = Inl KeyError"
| "py_first _ = Inl TypeError"

text \<open>\<open>str(issue).partition(':')[-1]\<close>: what follows the first colon, the empty string
  when there is none.\<close>

definition after_colon :: "string \<Rightarrow> string" where
  "after_colon s = (case dropWhile (\<lambda>c. c \<noteq> CHR '':'') s of [] \<Rightarrow> [] | c # rest \<Rightarrow> rest)"

text \<open>Assignment to a key of a dict: in place when the key is there, at the end
  otherwise.\<close>

fun dict_set :: "('k \<times> 'v) list \<Rightarrow> 'k \<Rightarrow> 'v \<Rightarrow> ('k \<times> 'v) list" where
  "dict_set [] k v = [(k, v)]"
| "dict_set ((k', v') # kvs) k v =
     (if k' = k then (k, v) # kvs else (k', v') # dict_set kvs k v)"

section \<open>The Jira handler (robottelo/utils/issue\_handlers/jira.py)\<close>

definition OPEN_STATUSES :: "string list" where
  "OPEN_STATUSES = [''New'', ''Backlog'', ''Refinement'', ''To Do'', ''In Progress'', ''Review'']"

definition CLOSED_STATUSES :: "string list" where
  "CLOSED_STATUSES = [''Release Pending'', ''Closed'']"

text \<open>In the source this constant is the string \<open>"Obsolete"\<close>, not a tuple.\<close>

definition WONTFIX_RESOLUTIONS :: "string" where
  "WONTFIX_RESOLUTIONS = ''Obsolete''"

text \<open>
  What the handler reads and writes outside its arguments: \<open>pytest.issue_data\<close> (a
  \<open>defaultdict\<close>, \<open>None\<close> while the attribute is not set), the two memo tables of
  \<open>CACHED_RESPONSES\<close>, the configured API key, the server version that
  \<open>get_sat_version()\<close> reports, and the tracker. The tracker is the function \<open>http\<close>:
  the outcome of the \<open>n\<close>-th request of the run, either the exception of
  \<open>requests.get\<close>, \<open>raise_for_status\<close> or \<open>json\<close>, or the decoded body.
  \<open>requests_made\<close> counts the requests and \<open>slept\<close> the seconds waited between retries.
\<close>

record world =
  issue_data :: "(string \<times> pyval) list option"
  cached_get_data :: "(string list \<times> pyval) list"
  cached_get_single :: "(string \<times> pyval) list"
  api_key :: pyval
  sat_version :: "nat list"
  http :: "nat \<Rightarrow> string list \<Rightarrow> error + pyval"
  requests_made :: nat
  slept :: nat

definition get_default_jr :: "pyval \<Rightarrow> pyval" where
  "get_default_jr number = PDict
     [(''id'', number),
      (''is_open'', PBool True),
      (''is_deselected'', PBool False),
      (''status'', PStr []),
      (''resolution'', PStr []),
      (''clone_ids'', PList []),
      (''cf_clone_of'', PStr []),
      (''error'', PStr ''missing jira api_key'')]"

text \<open>\<open>[item['data'] for _, item in cached_data.items() if 'data' in item]\<close>\<close>

fun cached_items :: "(string \<times> pyval) list \<Rightarrow> error + pyval list" where
  "cached_items [] = Inr []"
| "cached_items ((k, item) # rest) =
     ebind (py_contains item ''data'') (\<lambda>has.
       if has then
         ebind (py_getitem item ''data'') (\<lambda>d.
           ebind (cached_items rest) (\<lambda>ds. Inr (d # ds)))
       else cached_items rest)"

text \<open>\<open>all([f'JR:{number}' in cached_data for number in jr_numbers])\<close>: the list is built
  in full, so the first failing membership test raises.\<close>

fun all_cached :: "pyval \<Rightarrow> string list \<Rightarrow> error + bool" where
  "all_cached cached_data [] = Inr True"
| "all_cached cached_data (number # rest) =
     ebind (py_contains cached_data (''JR:'' @ number)) (\<lambda>b.
       ebind (all_cached cached_data rest) (\<lambda>bs. Inr (b \<and> bs)))"

text \<open>One run of the body of \<open>get_data_jr\<close>. The string \<open>jql\<close> that the body builds
  before the request is never used and is left out.\<close>

definition get_data_jr_body :: "world \<Rightarrow> string list \<Rightarrow> pyval \<Rightarrow> (error + pyval) \<times> world" where
  "get_data_jr_body w jr_numbers cached_data =
     (if jr_numbers = [] then (Inr (PList []), w)
      else
        let cached_by_call =
              (case map_of (cached_get_data w) (sort jr_numbers) of None \<Rightarrow> PNone | Some v \<Rightarrow> v)
        in
        if truthy cached_by_call then (Inr cached_by_call, w)
        else if truthy cached_data then
          (ebind (all_cached cached_data jr_numbers) (\<lambda>_.
             case cached_data of
               PDict kvs \<Rightarrow> ebind (cached_items kvs) (\<lambda>ds. Inr (PList ds))
             | _ \<Rightarrow> Inl AttributeError), w)
        else if \<not> truthy (api_key w) then
          (Inr (PList (map (\<lambda>number. get_default_jr (PStr number)) jr_numbers)), w)
        else
          let w' = w\<lparr>requests_made := requests_made w + 1\<rparr> in
          (case ebind (http w (requests_made w) jr_numbers) (\<lambda>body. dict_get body ''bugs'') of
             Inl e \<Rightarrow> (Inl e, w')
           | Inr data \<Rightarrow>
               (Inr data,
                w'\<lparr>cached_get_data := (sort jr_numbers, data) # cached_get_data w'\<rparr>)))"

text \<open>The decorator \<open>@retry(stop=stop_after_attempt(4), wait=wait_fixed(20))\<close>: the body is
  run again after any exception, with 20 seconds of sleep in between; when the last
  allowed attempt fails too, the decorator raises \<open>RetryError\<close>.\<close>

fun retrying :: "nat \<Rightarrow> world \<Rightarrow> string list \<Rightarrow> pyval \<Rightarrow> (error + pyval) \<times> world" where
  "retrying 0 w jr_numbers cached_data = (Inl RetryError, w)"
| "retrying (Suc 0) w jr_numbers cached_data =
     (case get_data_jr_body w jr_numbers cached_data of
        (Inl e, w') \<Rightarrow> (Inl RetryError, w')
      | (Inr v, w') \<Rightarrow> (Inr v, w'))"
| "retrying (Suc (Suc n)) w jr_numbers cached_data =
     (case get_data_jr_body w jr_numbers cached_data of
        (Inl e, w') \<Rightarrow> retrying (Suc n) (w'\<lparr>slept := slept w' + 20\<rparr>) jr_numbers cached_data
      | (Inr v, w') \<Rightarrow> (Inr v, w'))"

definition get_data_jr :: "world \<Rightarrow> string list \<Rightarrow> pyval \<Rightarrow> (error + pyval) \<times> world" where
  "get_data_jr w jr_numbers cached_data = retrying 4 w jr_numbers cached_data"

definition get_single_jr :: "world \<Rightarrow> string \<Rightarrow> pyval \<Rightarrow> (error + pyval) \<times> world" where
  "get_single_jr w number cached_data0 =
     (let cached_data = py_or cached_data0 (PDict []);
          jr_data = (case map_of (cached_get_single w) number of None \<Rightarrow> PNone | Some v \<Rightarrow> v)
      in
      if truthy jr_data then (Inr jr_data, w)
      else
        (case ebind (py_getitem cached_data (''JR:'' @ number)) (\<lambda>item. py_getitem item ''data'') of
           Inr d \<Rightarrow>
             (Inr (py_or d (get_default_jr (PStr number))),
              w\<lparr>cached_get_single := (number, d) # cached_get_single w\<rparr>)
         | Inl e \<Rightarrow>
             (case get_data_jr w [number] cached_data of
                (Inl e', w') \<Rightarrow> (Inl e', w')
              | (Inr fetched, w') \<Rightarrow>
                  (case (if truthy fetched then py_first fetched else Inr fetched) of
                     Inl e' \<Rightarrow> (Inl e', w')
                   | Inr d \<Rightarrow>
                       (Inr (py_or d (get_default_jr (PStr number))),
                        w'\<lparr>cached_get_single := (number, d) # cached_get_single w'\<rparr>)))))"

text \<open>The entry that the \<open>defaultdict\<close> creates for a key it does not have.\<close>

definition default_entry :: pyval where
  "default_entry = PDict [(''data'', PDict []), (''used_in'', PList [])]"

definition try_from_cache :: "world \<Rightarrow> string \<Rightarrow> pyval \<Rightarrow> (error + pyval) \<times> world" where
  "try_from_cache w issue data =
     (if truthy data then (Inr data, w)
      else
        (case issue_data w of
           None \<Rightarrow> get_single_jr w (after_colon issue) PNone
         | Some entries \<Rightarrow>
             let (entry, w') =
                   (case map_of entries issue of
                      Some e \<Rightarrow> (e, w)
                    | None \<Rightarrow> (default_entry,
                               w\<lparr>issue_data := Some (entries @ [(issue, default_entry)])\<rparr>))
             in
             (case py_getitem entry ''data'' of
                Inl KeyError \<Rightarrow> get_single_jr w' (after_colon issue) PNone
              | Inl e \<Rightarrow> (Inl e, w')
              | Inr d \<Rightarrow>
                  (case py_len d of
                     Inl e \<Rightarrow> (Inl e, w')
                   | Inr n \<Rightarrow>
                       if n = 0 then get_single_jr w' (after_colon issue) PNone
                       else (Inr d, w')))))"

text \<open>The duplicate chain is a nested value here, so it is finite; the interpreter's
  recursion limit is modelled with the chain of objects in the next section.\<close>

function follow_duplicates :: "pyval \<Rightarrow> error + pyval" where
  "follow_duplicates jr =
     (case dict_get jr ''dupe_data'' of
        Inl e \<Rightarrow> Inl e
      | Inr d \<Rightarrow>
          if truthy d then
            (case py_getitem jr ''dupe_data'' of
               Inl e \<Rightarrow> Inl e
             | Inr d' \<Rightarrow> follow_duplicates d')
          else Inr jr)"
  by pat_completeness auto
termination follow_duplicates
proof (relation "measure size")
  show "wf (measure size)" by simp
next
  fix jr d d'
  assume got: "py_getitem jr ''dupe_data'' = Inr d'"
  have smaller: "map_of kvs k = Some v \<Longrightarrow> size v < Suc (size_list (size_prod (\<lambda>_. 0) size) kvs)"
    for kvs :: "(string \<times> pyval) list" and k v
    by (induction kvs) (auto split: if_splits)
  from got have "size d' < size jr"
    by (cases jr) (auto split: option.splits dest: smaller)
  then show "(d', jr) \<in> measure size" by simp
qed

definition is_open_jr :: "world \<Rightarrow> string \<Rightarrow> pyval \<Rightarrow> (error + pyval) \<times> world" where
  "is_open_jr w issue data =
     (case try_from_cache w issue data of
        (Inl e, w') \<Rightarrow> (Inl e, w')
      | (Inr jr, w') \<Rightarrow>
          (ebind (dict_get jr ''is_open'') (\<lambda>memo.
             if memo \<noteq> PNone then py_getitem jr ''is_open''
             else
               ebind (follow_duplicates jr) (\<lambda>jr.
                 ebind (dict_get jr ''status'') (\<lambda>status.
                   if in_tuple status OPEN_STATUSES then Inr (PBool True)
                   else
                     ebind (if in_tuple status CLOSED_STATUSES
                            then ebind (dict_get jr ''resolution'') (\<lambda>r. in_str r WONTFIX_RESOLUTIONS)
                            else Inr False) (\<lambda>wontfix.
                       if wontfix then Inr (PBool True)
                       else
                         ebind (dict_get jr ''fixVersions'') (\<lambda>fix_versions.
                           ebind (py_min fix_versions) (\<lambda>m.
                             ebind (py_lt (PVersion (sat_version w')) m) (\<lambda>older.
                               Inr (py_or (PBool older) (PVersion [0]))))))))), w'))"

definition should_deselect_jr :: "world \<Rightarrow> string \<Rightarrow> pyval \<Rightarrow> (error + pyval) \<times> world" where
  "should_deselect_jr w issue data =
     (case try_from_cache w issue data of
        (Inl e, w') \<Rightarrow> (Inl e, w')
      | (Inr jr, w') \<Rightarrow>
          (ebind (dict_get jr ''is_deselected'') (\<lambda>memo.
             if memo \<noteq> PNone then py_getitem jr ''is_deselected''
             else
               ebind (follow_duplicates jr) (\<lambda>jr.
                 ebind (dict_get jr ''status'') (\<lambda>status.
                   if in_tuple status CLOSED_STATUSES
                   then ebind (dict_get jr ''resolution'') (\<lambda>r.
                          ebind (in_str r WONTFIX_RESOLUTIONS) (\<lambda>b. Inr (PBool b)))
                   else Inr (PBool False)))), w'))"

section \<open>The Jira handler on shared objects\<close>

text \<open>
  The functions that collect the tracker data mutate the records they are given
  (\<open>jr['dupe_data'] = ...\<close>, \<open>data["is_open"] = ...\<close>) and keep the same dict objects in
  several places: in the two memo tables, in the collected data, in the cache data and
  under \<open>dupe_data\<close> of other records. A nested value cannot express that, so in this
  section a list or a dict is an object on a heap and is held by reference; \<open>None\<close>,
  booleans, integers, strings and versions are immutable and are held as they are.

  Python bounds the depth of recursion. Each recursive function of this section has a
  first argument \<open>frames\<close>, the number of frames the interpreter still allows; with none
  left the call raises \<open>RecursionError\<close>.
\<close>

type_synonym addr = nat

datatype hval =
    HNone
  | HBool bool
  | HInt int
  | HStr string
  | HVersion "nat list"
  | HRef addr

datatype hobj =
    HList "hval list"
  | HDict "(string \<times> hval) list"

text \<open>
  The state of the test session: the heap with its next free address, the attribute
  \<open>pytest.issue_data\<close> (unset at first, later the collected \<open>defaultdict\<close>), the two
  tables of \<open>CACHED_RESPONSES\<close>, the API key, the version that \<open>get_sat_version()\<close>
  reports, the tracker with the counters of requests and of seconds slept, and the text
  that \<open>str()\<close> gives for a list or a dict.
\<close>

record session =
  heap :: "addr \<Rightarrow> hobj"
  next_free :: addr
  pytest_issue_data :: "addr option"
  memo_get_data :: "(string list \<times> hval) list"
  memo_get_single :: "(hval \<times> hval) list"
  jira_api_key :: pyval
  server_version :: "nat list"
  tracker :: "nat \<Rightarrow> string list \<Rightarrow> error + pyval"
  requests_sent :: nat
  seconds_slept :: nat
  container_text :: "(addr \<Rightarrow> hobj) \<Rightarrow> addr \<Rightarrow> string"

definition sbind ::
  "(error + 'a) \<times> session \<Rightarrow> ('a \<Rightarrow> session \<Rightarrow> (error + 'b) \<times> session) \<Rightarrow> (error + 'b) \<times> session" where
  "sbind m f = (case m of (Inl e, w) \<Rightarrow> (Inl e, w) | (Inr x, w) \<Rightarrow> f x w)"

subsection \<open>Objects\<close>

fun truthy_h :: "(addr \<Rightarrow> hobj) \<Rightarrow> hval \<Rightarrow> bool" where
  "truthy_h h HNone = False"
| "truthy_h h (HBool b) = b"
| "truthy_h h (HInt i) = (i \<noteq> 0)"
| "truthy_h h (HStr s) = (s \<noteq> [])"
| "truthy_h h (HVersion v) = True"
| "truthy_h h (HRef a) = (case h a of HList xs \<Rightarrow> xs \<noteq> [] | HDict kvs \<Rightarrow> kvs \<noteq> [])"

text \<open>A new object.\<close>

definition new_object :: "hobj \<Rightarrow> session \<Rightarrow> hval \<times> session" where
  "new_object obj w =
     (HRef (next_free w),
      w\<lparr>heap := (heap w)(next_free w := obj), next_free := Suc (next_free w)\<rparr>)"

text \<open>The objects of a decoded JSON text or of a literal: one object for every list and
  every dict in it.\<close>

fun build :: "pyval \<Rightarrow> session \<Rightarrow> hval \<times> session"
and build_list :: "pyval list \<Rightarrow> session \<Rightarrow> hval list \<times> session"
and build_items :: "(string \<times> pyval) list \<Rightarrow> session \<Rightarrow> (string \<times> hval) list \<times> session" where
  "build PNone w = (HNone, w)"
| "build (PBool b) w = (HBool b, w)"
| "build (PInt i) w = (HInt i, w)"
| "build (PStr s) w = (HStr s, w)"
| "build (PVersion v) w = (HVersion v, w)"
| "build (PList xs) w = (case build_list xs w of (vs, w1) \<Rightarrow> new_object (HList vs) w1)"
| "build (PDict kvs) w = (case build_items kvs w of (kvs1, w1) \<Rightarrow> new_object (HDict kvs1) w1)"
| "build_list [] w = ([], w)"
| "build_list (x # xs) w =
     (case build x w of (v, w1) \<Rightarrow> case build_list xs w1 of (vs, w2) \<Rightarrow> (v # vs, w2))"
| "build_items [] w = ([], w)"
| "build_items ((k, x) # kvs) w =
     (case build x w of (v, w1) \<Rightarrow> case build_items kvs w1 of (kvs2, w2) \<Rightarrow> ((k, v) # kvs2, w2))"

text \<open>The value that a reference stands for, down to a given depth of nesting; \<open>None\<close>
  for what is nested deeper, as every object that contains itself is.\<close>

fun value_of :: "nat \<Rightarrow> (addr \<Rightarrow> hobj) \<Rightarrow> hval \<Rightarrow> pyval option"
and values_of :: "nat \<Rightarrow> (addr \<Rightarrow> hobj) \<Rightarrow> hval list \<Rightarrow> pyval list option"
and items_of :: "nat \<Rightarrow> (addr \<Rightarrow> hobj) \<Rightarrow> (string \<times> hval) list \<Rightarrow> (string \<times> pyval) list option" where
  "value_of n h HNone = Some PNone"
| "value_of n h (HBool b) = Some (PBool b)"
| "value_of n h (HInt i) = Some (PInt i)"
| "value_of n h (HStr s) = Some (PStr s)"
| "value_of n h (HVersion v) = Some (PVersion v)"
| "value_of 0 h (HRef a) = None"
| "value_of (Suc n) h (HRef a) =
     (case h a of
        HList xs \<Rightarrow> map_option PList (values_of n h xs)
      | HDict kvs \<Rightarrow> map_option PDict (items_of n h kvs))"
| "values_of n h [] = Some []"
| "values_of n h (x # xs) =
     (case value_of n h x of
        None \<Rightarrow> None
      | Some v \<Rightarrow> map_option ((#) v) (values_of n h xs))"
| "items_of n h [] = Some []"
| "items_of n h ((k, x) # kvs) =
     (case value_of n h x of
        None \<Rightarrow> None
      | Some v \<Rightarrow> map_option ((#) (k, v)) (items_of n h kvs))"

text \<open>\<open>x.get(k)\<close>, \<open>x[k]\<close> and \<open>x[k] = v\<close> for a string \<open>k\<close>, \<open>x[0]\<close>, \<open>k in x\<close>,
  iteration and \<open>len\<close>.\<close>

fun h_get :: "(addr \<Rightarrow> hobj) \<Rightarrow> hval \<Rightarrow> string \<Rightarrow> error + hval" where
  "h_get h (HRef a) k =
     (case h a of
        HDict kvs \<Rightarrow> Inr (case map_of kvs k of None \<Rightarrow> HNone | Some v \<Rightarrow> v)
      | HList xs \<Rightarrow> Inl AttributeError)"
| "h_get h _ k = Inl AttributeError"

fun h_item :: "(addr \<Rightarrow> hobj) \<Rightarrow> hval \<Rightarrow> string \<Rightarrow> error + hval" where
  "h_item h (HRef a) k =
     (case h a of
        HDict kvs \<Rightarrow> (case map_of kvs k of None \<Rightarrow> Inl KeyError | Some v \<Rightarrow> Inr v)
      | HList xs \<Rightarrow> Inl TypeError)"
| "h_item h _ k = Inl TypeError"

fun h_set_item :: "hval \<Rightarrow> string \<Rightarrow> hval \<Rightarrow> session \<Rightarrow> (error + unit) \<times> session" where
  "h_set_item (HRef a) k v w =
     (case heap w a of
        HDict kvs \<Rightarrow> (Inr (), w\<lparr>heap := (heap w)(a := HDict (dict_set kvs k v))\<rparr>)
      | HList xs \<Rightarrow> (Inl TypeError, w))"
| "h_set_item _ k v w = (Inl TypeError, w)"

fun h_first :: "(addr \<Rightarrow> hobj) \<Rightarrow> hval \<Rightarrow> error + hval" where
  "h_first h (HRef a) =
     (case h a of
        HList [] \<Rightarrow> Inl IndexError
      | HList (x # xs) \<Rightarrow> Inr x
      | HDict kvs \<Rightarrow> Inl KeyError)"
| "h_first h (HStr []) = Inl IndexError"
| "h_first h (HStr (c # cs)) = Inr (HStr [c])"
| "h_first h _ = Inl TypeError"

fun h_contains :: "(addr \<Rightarrow> hobj) \<Rightarrow> hval \<Rightarrow> string \<Rightarrow> error + bool" where
  "h_contains h (HRef a) k =
     (case h a of
        HDict kvs \<Rightarrow> Inr (k \<in> set (map fst kvs))
      | HList xs \<Rightarrow> Inr (HStr k \<in> set xs))"
| "h_contains h (HStr s) k = Inr (sublist k s)"
| "h_contains h _ k = Inl TypeError"

fun h_iter :: "(addr \<Rightarrow> hobj) \<Rightarrow> hval \<Rightarrow> error + hval list" where
  "h_iter h (HRef a) =
     (case h a of
        HList xs \<Rightarrow> Inr xs
      | HDict kvs \<Rightarrow> Inr (map (\<lambda>kv. HStr (fst kv)) kvs))"
| "h_iter h (HStr s) = Inr (map (\<lambda>c. HStr [c]) s)"
| "h_iter h _ = Inl TypeError"

fun h_len :: "(addr \<Rightarrow> hobj) \<Rightarrow> hval \<Rightarrow> error + nat" where
  "h_len h (HRef a) = (case h a of HList xs \<Rightarrow> Inr (length xs) | HDict kvs \<Rightarrow> Inr (length kvs))"
| "h_len h (HStr s) = Inr (length s)"
| "h_len h _ = Inl TypeError"

text \<open>\<open>str(x)\<close>, as the f-strings use it.\<close>

function digits :: "nat \<Rightarrow> string" where
  "digits n = (if n < 10 then [char_of (48 + n)] else digits (n div 10) @ [char_of (48 + n mod 10)])"
  by pat_completeness auto
termination
  by (relation "measure id") auto

fun dotted :: "nat list \<Rightarrow> string" where
  "dotted [] = []"
| "dotted [n] = digits n"
| "dotted (n # m # rest) = digits n @ ''.'' @ dotted (m # rest)"

fun py_str :: "session \<Rightarrow> hval \<Rightarrow> string" where
  "py_str w HNone = ''None''"
| "py_str w (HBool b) = (if b then ''True'' else ''False'')"
| "py_str w (HInt i) = (if i < 0 then ''-'' @ digits (nat (- i)) else digits (nat i))"
| "py_str w (HStr s) = s"
| "py_str w (HVersion v) = dotted v"
| "py_str w (HRef a) = container_text w (heap w) a"

text \<open>Keys of a dict are compared with \<open>==\<close>; lists and dicts are not hashable.\<close>

fun atom_value :: "hval \<Rightarrow> pyval option" where
  "atom_value HNone = Some PNone"
| "atom_value (HBool b) = Some (PBool b)"
| "atom_value (HInt i) = Some (PInt i)"
| "atom_value (HStr s) = Some (PStr s)"
| "atom_value (HVersion v) = Some (PVersion v)"
| "atom_value (HRef a) = None"

definition key_eq :: "hval \<Rightarrow> hval \<Rightarrow> bool" where
  "key_eq x y = (case (atom_value x, atom_value y) of
                   (Some u, Some v) \<Rightarrow> py_eq u v
                 | _ \<Rightarrow> False)"

fun lookup_key :: "(hval \<times> hval) list \<Rightarrow> hval \<Rightarrow> hval option" where
  "lookup_key [] k = None"
| "lookup_key ((k', v) # rest) k = (if key_eq k' k then Some v else lookup_key rest k)"

text \<open>\<open>collected_data[key]\<close>: the entry of the \<open>defaultdict\<close>, created when missing by
  \<open>lambda: {"data": {}, "used_in": []}\<close>.\<close>

definition entry_for :: "addr \<Rightarrow> string \<Rightarrow> session \<Rightarrow> (error + hval) \<times> session" where
  "entry_for collected key w =
     (case heap w collected of
        HDict kvs \<Rightarrow>
          (case map_of kvs key of
             Some e \<Rightarrow> (Inr e, w)
           | None \<Rightarrow>
               (case build default_entry w of
                  (e, w1) \<Rightarrow>
                    (Inr e, w1\<lparr>heap := (heap w1)(collected := HDict (kvs @ [(key, e)]))\<rparr>)))
      | HList xs \<Rightarrow> (Inl TypeError, w))"

subsection \<open>Fetching\<close>

text \<open>\<open>[item['data'] for _, item in cached_data.items() if 'data' in item]\<close>\<close>

fun cached_records :: "(addr \<Rightarrow> hobj) \<Rightarrow> (string \<times> hval) list \<Rightarrow> error + hval list" where
  "cached_records h [] = Inr []"
| "cached_records h ((k, item) # rest) =
     ebind (h_contains h item ''data'') (\<lambda>has.
       if has then
         ebind (h_item h item ''data'') (\<lambda>d.
           ebind (cached_records h rest) (\<lambda>ds. Inr (d # ds)))
       else cached_records h rest)"

fun all_in_cache :: "(addr \<Rightarrow> hobj) \<Rightarrow> hval \<Rightarrow> string list \<Rightarrow> error + bool" where
  "all_in_cache h cached_data [] = Inr True"
| "all_in_cache h cached_data (number # rest) =
     ebind (h_contains h cached_data (''JR:'' @ number)) (\<lambda>b.
       ebind (all_in_cache h cached_data rest) (\<lambda>bs. Inr (b \<and> bs)))"

text \<open>\<open>[get_default_jr(number) for number in jr_numbers]\<close>\<close>

fun default_records :: "pyval list \<Rightarrow> session \<Rightarrow> hval list \<times> session" where
  "default_records [] w = ([], w)"
| "default_records (number # rest) w =
     (case build (get_default_jr number) w of
        (d, w1) \<Rightarrow> case default_records rest w1 of (ds, w2) \<Rightarrow> (d # ds, w2))"

text \<open>One run of the body of \<open>get_data_jr\<close>, on objects.\<close>

definition fetch_body :: "session \<Rightarrow> string list \<Rightarrow> hval \<Rightarrow> (error + hval) \<times> session" where
  "fetch_body w jr_numbers cached_data =
     (if jr_numbers = [] then
        (case new_object (HList []) w of (r, w1) \<Rightarrow> (Inr r, w1))
      else
        let cached_by_call =
              (case map_of (memo_get_data w) (sort jr_numbers) of None \<Rightarrow> HNone | Some v \<Rightarrow> v)
        in
        if truthy_h (heap w) cached_by_call then (Inr cached_by_call, w)
        else if truthy_h (heap w) cached_data then
          (case ebind (all_in_cache (heap w) cached_data jr_numbers) (\<lambda>_.
                  case cached_data of
                    HRef a \<Rightarrow>
                      (case heap w a of
                         HDict kvs \<Rightarrow> cached_records (heap w) kvs
                       | HList xs \<Rightarrow> Inl AttributeError)
                  | _ \<Rightarrow> Inl AttributeError) of
             Inl e \<Rightarrow> (Inl e, w)
           | Inr ds \<Rightarrow> (case new_object (HList ds) w of (r, w1) \<Rightarrow> (Inr r, w1)))
        else if \<not> truthy (jira_api_key w) then
          (case default_records (map PStr jr_numbers) w of
             (ds, w1) \<Rightarrow> case new_object (HList ds) w1 of (r, w2) \<Rightarrow> (Inr r, w2))
        else
          let w1 = w\<lparr>requests_sent := requests_sent w + 1\<rparr> in
          (case tracker w (requests_sent w) jr_numbers of
             Inl e \<Rightarrow> (Inl e, w1)
           | Inr body \<Rightarrow>
               (case build body w1 of
                  (b, w2) \<Rightarrow>
                    (case h_get (heap w2) b ''bugs'' of
                       Inl e \<Rightarrow> (Inl e, w2)
                     | Inr data \<Rightarrow>
                         (Inr data,
                          w2\<lparr>memo_get_data := (sort jr_numbers, data) # memo_get_data w2\<rparr>)))))"

fun fetch_retrying :: "nat \<Rightarrow> session \<Rightarrow> string list \<Rightarrow> hval \<Rightarrow> (error + hval) \<times> session" where
  "fetch_retrying 0 w jr_numbers cached_data = (Inl RetryError, w)"
| "fetch_retrying (Suc 0) w jr_numbers cached_data =
     (case fetch_body w jr_numbers cached_data of
        (Inl e, w1) \<Rightarrow> (Inl RetryError, w1)
      | (Inr v, w1) \<Rightarrow> (Inr v, w1))"
| "fetch_retrying (Suc (Suc n)) w jr_numbers cached_data =
     (case fetch_body w jr_numbers cached_data of
        (Inl e, w1) \<Rightarrow>
          fetch_retrying (Suc n) (w1\<lparr>seconds_slept := seconds_slept w1 + 20\<rparr>) jr_numbers cached_data
      | (Inr v, w1) \<Rightarrow> (Inr v, w1))"

text \<open>\<open>get_data_jr\<close> on objects.\<close>

definition fetch_data :: "session \<Rightarrow> string list \<Rightarrow> hval \<Rightarrow> (error + hval) \<times> session" where
  "fetch_data w jr_numbers cached_data = fetch_retrying 4 w jr_numbers cached_data"

text \<open>\<open>x or {}\<close>\<close>

definition or_empty_dict :: "hval \<Rightarrow> session \<Rightarrow> hval \<times> session" where
  "or_empty_dict x w = (if truthy_h (heap w) x then (x, w) else new_object (HDict []) w)"

text \<open>\<open>jr_data or get_default_jr(number)\<close>\<close>

definition or_default :: "hval \<Rightarrow> hval \<Rightarrow> session \<Rightarrow> hval \<times> session" where
  "or_default jr_data number w =
     (if truthy_h (heap w) jr_data then (jr_data, w)
      else build (get_default_jr (case atom_value number of None \<Rightarrow> PNone | Some v \<Rightarrow> v)) w)"

text \<open>\<open>get_single_jr\<close> on objects. The number is a key of the memo table, so a list or a
  dict as number raises \<open>TypeError\<close>.\<close>

definition fetch_single :: "session \<Rightarrow> hval \<Rightarrow> hval \<Rightarrow> (error + hval) \<times> session" where
  "fetch_single w0 number cached_data0 =
     (case or_empty_dict cached_data0 w0 of
        (cached_data, w) \<Rightarrow>
          (case number of
             HRef a \<Rightarrow> (Inl TypeError, w)
           | _ \<Rightarrow>
               let jr_data = (case lookup_key (memo_get_single w) number of
                                None \<Rightarrow> HNone | Some v \<Rightarrow> v)
               in
               if truthy_h (heap w) jr_data then (Inr jr_data, w)
               else
                 (case ebind (h_item (heap w) cached_data (''JR:'' @ py_str w number))
                         (\<lambda>item. h_item (heap w) item ''data'') of
                    Inr d \<Rightarrow>
                      (case or_default d number
                              (w\<lparr>memo_get_single := (number, d) # memo_get_single w\<rparr>) of
                         (r, w1) \<Rightarrow> (Inr r, w1))
                  | Inl e \<Rightarrow>
                      sbind (fetch_data w [py_str w number] cached_data) (\<lambda>fetched w1.
                        case (if truthy_h (heap w1) fetched then h_first (heap w1) fetched
                              else Inr fetched) of
                          Inl e' \<Rightarrow> (Inl e', w1)
                        | Inr d \<Rightarrow>
                            (case or_default d number
                                    (w1\<lparr>memo_get_single := (number, d) # memo_get_single w1\<rparr>) of
                               (r, w2) \<Rightarrow> (Inr r, w2))))))"

text \<open>\<open>try_from_cache\<close> on objects.\<close>

definition find_record :: "session \<Rightarrow> string \<Rightarrow> hval \<Rightarrow> (error + hval) \<times> session" where
  "find_record w issue data =
     (if truthy_h (heap w) data then (Inr data, w)
      else
        (case pytest_issue_data w of
           None \<Rightarrow> fetch_single w (HStr (after_colon issue)) HNone
         | Some collected \<Rightarrow>
             sbind (entry_for collected issue w) (\<lambda>entry w1.
               case h_item (heap w1) entry ''data'' of
                 Inl KeyError \<Rightarrow> fetch_single w1 (HStr (after_colon issue)) HNone
               | Inl e \<Rightarrow> (Inl e, w1)
               | Inr d \<Rightarrow>
                   (case h_len (heap w1) d of
                      Inl e \<Rightarrow> (Inl e, w1)
                    | Inr n \<Rightarrow>
                        if n = 0 then fetch_single w1 (HStr (after_colon issue)) HNone
                        else (Inr d, w1)))))"

subsection \<open>Deciding\<close>

text \<open>\<open>follow_duplicates\<close> on objects.\<close>

fun follow_duplicates_obj :: "nat \<Rightarrow> (addr \<Rightarrow> hobj) \<Rightarrow> hval \<Rightarrow> error + hval" where
  "follow_duplicates_obj 0 h jr = Inl RecursionError"
| "follow_duplicates_obj (Suc frames) h jr =
     (case h_get h jr ''dupe_data'' of
        Inl e \<Rightarrow> Inl e
      | Inr d \<Rightarrow>
          if truthy_h h d then
            (case h_item h jr ''dupe_data'' of
               Inl e \<Rightarrow> Inl e
             | Inr d' \<Rightarrow> follow_duplicates_obj frames h d')
          else Inr jr)"

text \<open>\<open><\<close> and \<open>min\<close> on objects: the operands are compared by value, to the depth the
  interpreter allows.\<close>

definition lt_h :: "nat \<Rightarrow> (addr \<Rightarrow> hobj) \<Rightarrow> hval \<Rightarrow> hval \<Rightarrow> error + bool" where
  "lt_h frames h x y =
     (case (value_of frames h x, value_of frames h y) of
        (Some u, Some v) \<Rightarrow> py_lt u v
      | _ \<Rightarrow> Inl RecursionError)"

fun min_from_h :: "nat \<Rightarrow> (addr \<Rightarrow> hobj) \<Rightarrow> hval \<Rightarrow> hval list \<Rightarrow> error + hval" where
  "min_from_h frames h m [] = Inr m"
| "min_from_h frames h m (x # xs) =
     (case lt_h frames h x m of
        Inl e \<Rightarrow> Inl e
      | Inr b \<Rightarrow> min_from_h frames h (if b then x else m) xs)"

definition min_h :: "nat \<Rightarrow> (addr \<Rightarrow> hobj) \<Rightarrow> hval \<Rightarrow> error + hval" where
  "min_h frames h v =
     (case h_iter h v of
        Inl e \<Rightarrow> Inl e
      | Inr [] \<Rightarrow> Inl ValueError
      | Inr (x # xs) \<Rightarrow> min_from_h frames h x xs)"

definition in_tuple_h :: "hval \<Rightarrow> string list \<Rightarrow> bool" where
  "in_tuple_h x t = (case x of HStr s \<Rightarrow> s \<in> set t | _ \<Rightarrow> False)"

definition in_str_h :: "hval \<Rightarrow> string \<Rightarrow> error + bool" where
  "in_str_h x s = (case x of HStr r \<Rightarrow> Inr (sublist r s) | _ \<Rightarrow> Inl TypeError)"

text \<open>\<open>is_open_jr\<close> on objects.\<close>

definition is_open_obj :: "nat \<Rightarrow> session \<Rightarrow> string \<Rightarrow> hval \<Rightarrow> (error + hval) \<times> session" where
  "is_open_obj frames w0 issue data =
     sbind (find_record w0 issue data) (\<lambda>jr w.
       (ebind (h_get (heap w) jr ''is_open'') (\<lambda>memo.
          if memo \<noteq> HNone then h_item (heap w) jr ''is_open''
          else
            ebind (follow_duplicates_obj frames (heap w) jr) (\<lambda>jr.
              ebind (h_get (heap w) jr ''status'') (\<lambda>status.
                if in_tuple_h status OPEN_STATUSES then Inr (HBool True)
                else
                  ebind (if in_tuple_h status CLOSED_STATUSES
                         then ebind (h_get (heap w) jr ''resolution'')
                                (\<lambda>r. in_str_h r WONTFIX_RESOLUTIONS)
                         else Inr False) (\<lambda>wontfix.
                    if wontfix then Inr (HBool True)
                    else
                      ebind (h_get (heap w) jr ''fixVersions'') (\<lambda>fix_versions.
                        ebind (min_h frames (heap w) fix_versions) (\<lambda>m.
                          ebind (lt_h frames (heap w) (HVersion (server_version w)) m) (\<lambda>older.
                            Inr (if older then HBool True else HVersion [0])))))))), w))"

subsection \<open>Collecting\<close>

text \<open>\<open>collect_dupes\<close>: the record is changed in place, and the record of the duplicate
  is the object that \<open>get_single_jr\<close> keeps in its memo table.\<close>

fun collect_dupes :: "nat \<Rightarrow> session \<Rightarrow> hval \<Rightarrow> addr \<Rightarrow> hval \<Rightarrow> (error + unit) \<times> session" where
  "collect_dupes 0 w jr collected_data cached_data0 = (Inl RecursionError, w)"
| "collect_dupes (Suc frames) w0 jr collected_data cached_data0 =
     (case or_empty_dict cached_data0 w0 of
        (cached_data, w) \<Rightarrow>
          sbind (h_get (heap w) jr ''resolution'', w) (\<lambda>resolution w.
            if resolution \<noteq> HStr ''Duplicate'' then (Inr (), w)
            else
              sbind (h_get (heap w) jr ''dupe_of'', w) (\<lambda>dupe_of w.
              sbind (fetch_single w dupe_of cached_data) (\<lambda>dupe w.
              sbind (h_set_item jr ''dupe_data'' dupe w) (\<lambda>_ w.
              sbind (h_item (heap w) jr ''dupe_of'', w) (\<lambda>number w.
              let dupe_key = ''JR:'' @ py_str w number in
              sbind (h_contains (heap w) (HRef collected_data) dupe_key, w) (\<lambda>present w.
                if present then (Inr (), w)
                else
                  sbind (h_item (heap w) jr ''dupe_data'', w) (\<lambda>dupe_data w.
                  sbind (entry_for collected_data dupe_key w) (\<lambda>entry w.
                  sbind (h_set_item entry ''data'' dupe_data w) (\<lambda>_ w.
                  sbind (entry_for collected_data dupe_key w) (\<lambda>entry w.
                  sbind (h_set_item entry ''is_dupe'' (HBool True) w) (\<lambda>_ w.
                  sbind (h_item (heap w) jr ''dupe_data'', w) (\<lambda>d w.
                    collect_dupes frames w d collected_data cached_data)))))))))))))"

text \<open>The loop of \<open>collect_data_jr\<close> over the fetched records.\<close>

fun collect_records :: "nat \<Rightarrow> session \<Rightarrow> hval list \<Rightarrow> addr \<Rightarrow> hval \<Rightarrow> (error + unit) \<times> session" where
  "collect_records frames w [] collected_data cached_data = (Inr (), w)"
| "collect_records frames w (data # rest) collected_data cached_data =
     sbind (collect_dupes frames w data collected_data cached_data) (\<lambda>_ w.
     sbind (h_item (heap w) data ''id'', w) (\<lambda>number w.
     let jr_key = ''JR:'' @ py_str w number in
     sbind (is_open_obj frames w jr_key data) (\<lambda>opn w.
     sbind (h_set_item data ''is_open'' opn w) (\<lambda>_ w.
     sbind (entry_for collected_data jr_key w) (\<lambda>entry w.
     sbind (h_set_item entry ''data'' data w) (\<lambda>_ w.
       collect_records frames w rest collected_data cached_data))))))"

definition collect_data_jr :: "nat \<Rightarrow> session \<Rightarrow> addr \<Rightarrow> hval \<Rightarrow> (error + unit) \<times> session" where
  "collect_data_jr frames w collected_data cached_data =
     (case h_iter (heap w) (HRef collected_data) of
        Inl e \<Rightarrow> (Inl e, w)
      | Inr keys \<Rightarrow>
          sbind (fetch_data w
                   (map after_colon
                      (filter (prefix ''JR:'') (map (py_str w) keys))) cached_data)
            (\<lambda>fetched w1.
              case (if truthy_h (heap w1) fetched then h_iter (heap w1) fetched else Inr []) of
                Inl e \<Rightarrow> (Inl e, w1)
              | Inr jr_data \<Rightarrow> collect_records frames w1 jr_data collected_data cached_data))"

section \<open>The collection plugin (pytest\_plugins/issue\_handlers.py)\<close>

text \<open>
  A test item as the plugin sees it. \<open>iter_markers\<close> yields the item's own markers and
  then those of its class and module; \<open>add_marker\<close> appends to the own markers;
  \<open>get_closest_marker\<close> is the first marker of that name in iteration order.
  \<open>doc_bz\<close> and \<open>doc_jr\<close> are the stripped tokens that the patterns \<open>BZ\<close> and \<open>JR\<close> find
  in the docstrings of the module, the class and the function.
\<close>

record mark =
  mark_name :: string
  mark_args :: "pyval list"
  mark_kwargs :: "(string \<times> pyval) list"

record item =
  nodeid :: string
  location :: "string \<times> int \<times> string"
  item_module :: string
  own_markers :: "mark list"
  inherited_markers :: "mark list"
  doc_bz :: "string list"
  doc_jr :: "string list"

definition iter_markers :: "item \<Rightarrow> mark list" where
  "iter_markers it = own_markers it @ inherited_markers it"

definition get_closest_marker :: "item \<Rightarrow> string \<Rightarrow> mark option" where
  "get_closest_marker it name = find (\<lambda>m. mark_name m = name) (iter_markers it)"

definition add_marker :: "item \<Rightarrow> mark \<Rightarrow> item" where
  "add_marker it m = it\<lparr>own_markers := own_markers it @ [m]\<rparr>"

text \<open>\<open>marker.kwargs.get('reason') or marker.args[0]\<close>\<close>

definition marker_issue :: "mark \<Rightarrow> error + pyval" where
  "marker_issue m =
     (let reason = (case map_of (mark_kwargs m) ''reason'' of None \<Rightarrow> PNone | Some r \<Rightarrow> r)
      in if truthy reason then Inr reason
         else (case mark_args m of [] \<Rightarrow> Inl IndexError | a # _ \<Rightarrow> Inr a))"

text \<open>\<open>marker.args[0]\<close> of a marker that may be missing.\<close>

definition first_arg :: "mark option \<Rightarrow> error + pyval" where
  "first_arg mo =
     (case mo of
        None \<Rightarrow> Inl AttributeError
      | Some m \<Rightarrow> (case mark_args m of [] \<Rightarrow> Inl IndexError | a # _ \<Rightarrow> Inr a))"

text \<open>\<open>str.strip()\<close> and \<open>str.split(sep)\<close>. A character of a string is a code point below
  256; of these \<open>str.strip()\<close> removes the space, U+0009 to U+000D, U+001C to U+001F,
  U+0085 and U+00A0.\<close>

definition is_space :: "char \<Rightarrow> bool" where
  "is_space c = (c \<in> set [CHR '' '', CHR 0x09, CHR 0x0A, CHR 0x0B, CHR 0x0C, CHR 0x0D,
                            CHR 0x1C, CHR 0x1D, CHR 0x1E, CHR 0x1F, CHR 0x85, CHR 0xA0])"

definition strip :: "string \<Rightarrow> string" where
  "strip s = rev (dropWhile is_space (rev (dropWhile is_space s)))"

fun split_on :: "char \<Rightarrow> string \<Rightarrow> string list" where
  "split_on sep [] = [[]]"
| "split_on sep (c # cs) =
     (if c = sep then [] # split_on sep cs
      else (case split_on sep cs of
              [] \<Rightarrow> [[c]]
            | x # xs \<Rightarrow> (c # x) # xs))"

definition py_strip :: "pyval \<Rightarrow> error + string" where
  "py_strip v = (case v of PStr s \<Rightarrow> Inr (strip s) | _ \<Rightarrow> Inl AttributeError)"

text \<open>\<open>set(x)\<close>: the elements of an iterable, which must be hashable. A set is kept as
  the list of its elements; only membership is ever asked of it.\<close>

fun hashable :: "pyval \<Rightarrow> bool" where
  "hashable (PList xs) = False"
| "hashable (PDict kvs) = False"
| "hashable _ = True"

definition py_set :: "pyval \<Rightarrow> error + pyval list" where
  "py_set v =
     (case py_iter v of
        Inl e \<Rightarrow> Inl e
      | Inr xs \<Rightarrow> if list_all hashable xs then Inr xs else Inl TypeError)"

text \<open>The truth value of \<open>a & b\<close>: the intersection has an element.\<close>

definition intersects :: "pyval list \<Rightarrow> pyval list \<Rightarrow> bool" where
  "intersects a b = list_ex (\<lambda>x. list_ex (\<lambda>y. py_eq x y) b) a"

text \<open>
  What the plugin calls outside the two source files: \<open>slugify_component\<close>, the scanning
  of the function's source for \<open>is_open(\<close> with \<open>add_workaround\<close>, the work between the
  item loop and the deselection loop (scanning the modules' sources,
  \<open>bugzilla.collect_data_bz\<close>, \<open>jira.collect_data_jr\<close> with the cache file read at the
  start), and the dispatchers \<open>is_open\<close> and \<open>should_deselect\<close> of
  \<open>robottelo.utils.issue_handlers\<close>, which see the collected data. Each is a parameter
  that may raise. Writing the cache file at the end is not modelled.
\<close>

type_synonym collected = "(string \<times> pyval) list"

record plugin_env =
  slugify_component :: "pyval \<Rightarrow> error + pyval"
  scan_source :: "item \<Rightarrow> collected \<Rightarrow> error + collected"
  resolve_issues :: "string list \<Rightarrow> collected \<Rightarrow> error + collected"
  should_deselect :: "string \<Rightarrow> pyval \<Rightarrow> error + pyval"
  is_open :: "collected \<Rightarrow> pyval \<Rightarrow> error + pyval"

record config =
  opt_BZ :: "string option"
  opt_JR :: "string option"

record gic_state =
  collected_data :: collected
  deselect_data :: "((string \<times> int \<times> string) \<times> string) list"
  test_modules :: "string list"

definition valid_markers :: "string list" where
  "valid_markers = [''skip_if_open'', ''skip'', ''deselect'']"

text \<open>\<open>collected_data[key]\<close> on the \<open>defaultdict\<close>: the entry, created when missing.\<close>

definition entry_of :: "collected \<Rightarrow> string \<Rightarrow> pyval" where
  "entry_of cd key = (case map_of cd key of None \<Rightarrow> default_entry | Some e \<Rightarrow> e)"

text \<open>Reading a key leaves the created entry in the \<open>defaultdict\<close>.\<close>

definition touch :: "collected \<Rightarrow> string \<Rightarrow> collected" where
  "touch cd key = (case map_of cd key of None \<Rightarrow> cd @ [(key, default_entry)] | Some e \<Rightarrow> cd)"

text \<open>\<open>collected_data[key]['used_in'].append(usage)\<close>\<close>

definition append_used_in :: "collected \<Rightarrow> string \<Rightarrow> pyval \<Rightarrow> error + collected" where
  "append_used_in cd key usage =
     (case entry_of cd key of
        PDict kvs \<Rightarrow>
          (case map_of kvs ''used_in'' of
             None \<Rightarrow> Inl KeyError
           | Some (PList us) \<Rightarrow>
               Inr (dict_set cd key (PDict (dict_set kvs ''used_in'' (PList (us @ [usage])))))
           | Some _ \<Rightarrow> Inl AttributeError)
      | _ \<Rightarrow> Inl TypeError)"

text \<open>The loop over \<open>item.iter_markers()\<close> of one item (lines 268 to 289): the state is
  the collected data, the deselection table and the two lists of marks to add.\<close>

fun collect_markers ::
  "item \<Rightarrow> pyval \<Rightarrow> pyval \<Rightarrow> pyval \<Rightarrow> mark list \<Rightarrow>
   gic_state \<times> string list \<times> string list \<Rightarrow> error + gic_state \<times> string list \<times> string list" where
  "collect_markers it component_mark importance_mark component_slug [] acc = Inr acc"
| "collect_markers it component_mark importance_mark component_slug (marker # rest)
     (st, bz_marks_to_add, jr_marks_to_add) =
     (if mark_name marker \<in> set valid_markers then
        ebind (marker_issue marker) (\<lambda>issue.
          ebind (py_strip issue) (\<lambda>issue_key.
            ebind (append_used_in (collected_data st) issue_key
                     (PDict [(''filepath'', PStr (fst (location it))),
                             (''lineno'', PInt (fst (snd (location it)))),
                             (''testcase'', PStr (snd (snd (location it)))),
                             (''component'', component_mark),
                             (''importance'', importance_mark),
                             (''component_mark'', component_slug),
                             (''usage'', PStr (mark_name marker))])) (\<lambda>cd.
              collect_markers it component_mark importance_mark component_slug rest
                (st\<lparr>collected_data := cd,
                     deselect_data := dict_set (deselect_data st) (location it) issue_key\<rparr>,
                 bz_marks_to_add @ [last (split_on CHR '':'' issue_key)],
                 jr_marks_to_add @ [last (split_on CHR '':'' issue_key)]))))
      else collect_markers it component_mark importance_mark component_slug rest
             (st, bz_marks_to_add, jr_marks_to_add))"

text \<open>One turn of the loop over the items (lines 237 to 311).\<close>

definition collect_item :: "plugin_env \<Rightarrow> gic_state \<Rightarrow> item \<Rightarrow> error + gic_state \<times> item" where
  "collect_item env st it =
     (if prefix ''tests/robottelo/'' (nodeid it) then Inr (st, it)
      else
        let st1 = st\<lparr>test_modules := List.insert (item_module it) (test_modules st)\<rparr> in
        (case get_closest_marker it ''component'' of
           None \<Rightarrow> Inr (st1, it)
         | Some components \<Rightarrow>
             ebind (first_arg (Some components)) (\<lambda>component_mark.
               ebind (slugify_component env component_mark) (\<lambda>component_slug.
                 ebind (first_arg (get_closest_marker it ''importance'')) (\<lambda>importance_mark.
                   ebind (collect_markers it component_mark importance_mark component_slug
                            (iter_markers it) (st1, doc_bz it, doc_jr it))
                     (\<lambda>(st2, bz_marks_to_add, jr_marks_to_add).
                       ebind (scan_source env it (collected_data st2)) (\<lambda>cd.
                         let it1 = (if bz_marks_to_add \<noteq> []
                                    then add_marker it \<lparr>mark_name = ''BZ'',
                                           mark_args = map PStr bz_marks_to_add, mark_kwargs = []\<rparr>
                                    else it);
                             it2 = (if jr_marks_to_add \<noteq> []
                                    then add_marker it1 \<lparr>mark_name = ''JR'',
                                           mark_args = map PStr jr_marks_to_add, mark_kwargs = []\<rparr>
                                    else it1)
                         in Inr (st2\<lparr>collected_data := cd\<rparr>, it2))))))))"

fun collect_items :: "plugin_env \<Rightarrow> gic_state \<Rightarrow> item list \<Rightarrow> error + gic_state \<times> item list" where
  "collect_items env st [] = Inr (st, [])"
| "collect_items env st (it # its) =
     ebind (collect_item env st it) (\<lambda>(st1, it1).
       ebind (collect_items env st1 its) (\<lambda>(st2, its1). Inr (st2, it1 # its1)))"

text \<open>\<open>collected_data[issue]['data']['is_deselected'] = True\<close>\<close>

definition mark_deselected :: "collected \<Rightarrow> string \<Rightarrow> error + collected" where
  "mark_deselected cd issue =
     (case entry_of cd issue of
        PDict kvs \<Rightarrow>
          (case map_of kvs ''data'' of
             None \<Rightarrow> Inl KeyError
           | Some (PDict d) \<Rightarrow>
               Inr (dict_set cd issue
                      (PDict (dict_set kvs ''data'' (PDict (dict_set d ''is_deselected'' (PBool True))))))
           | Some _ \<Rightarrow> Inl TypeError)
      | _ \<Rightarrow> Inl TypeError)"

text \<open>The loop that adds the \<open>deselect\<close> markers (lines 352 to 356).\<close>

fun add_deselect_markers ::
  "plugin_env \<Rightarrow> ((string \<times> int \<times> string) \<times> string) list \<Rightarrow> collected \<Rightarrow> item list \<Rightarrow>
   error + collected \<times> item list" where
  "add_deselect_markers env dd cd [] = Inr (cd, [])"
| "add_deselect_markers env dd cd (it # its) =
     (case map_of dd (location it) of
        None \<Rightarrow> ebind (add_deselect_markers env dd cd its) (\<lambda>(cd1, its1). Inr (cd1, it # its1))
      | Some issue \<Rightarrow>
          if issue = [] then
            ebind (add_deselect_markers env dd cd its) (\<lambda>(cd1, its1). Inr (cd1, it # its1))
          else
            let cd0 = touch cd issue in
            ebind (py_getitem (entry_of cd0 issue) ''data'') (\<lambda>data.
              ebind (should_deselect env issue data) (\<lambda>d.
                if truthy d then
                  ebind (mark_deselected cd0 issue) (\<lambda>cd1.
                    ebind (add_deselect_markers env dd cd1 its) (\<lambda>(cd2, its1).
                      Inr (cd2, add_marker it \<lparr>mark_name = ''deselect'', mark_args = [],
                                   mark_kwargs = [(''reason'', PStr issue)]\<rparr> # its1)))
                else
                  ebind (add_deselect_markers env dd cd0 its) (\<lambda>(cd1, its1).
                    Inr (cd1, it # its1)))))"

definition generate_issue_collection ::
  "plugin_env \<Rightarrow> item list \<Rightarrow> error + collected \<times> item list" where
  "generate_issue_collection env items =
     ebind (collect_items env \<lparr>collected_data = [], deselect_data = [], test_modules = []\<rparr> items)
       (\<lambda>(st, items1).
         ebind (resolve_issues env (test_modules st) (collected_data st)) (\<lambda>cd.
           add_deselect_markers env (deselect_data st) cd items1))"

text \<open>\<open>set(getattr(item.get_closest_marker(name, None), 'args', []))\<close>\<close>

definition item_marks :: "item \<Rightarrow> string \<Rightarrow> error + pyval list" where
  "item_marks it name =
     py_set (PList (case get_closest_marker it name of None \<Rightarrow> [] | Some m \<Rightarrow> mark_args m))"

text \<open>A filter option after \<open>if filters: filters = filters.split(',')\<close>.\<close>

definition split_filter :: "string option \<Rightarrow> pyval" where
  "split_filter opt =
     (case opt of
        None \<Rightarrow> PNone
      | Some s \<Rightarrow> if s \<noteq> [] then PList (map PStr (split_on CHR '','' s)) else PStr s)"

text \<open>The loop over the items of \<open>pytest_collection_modifyitems\<close> (lines 95 to 119);
  the result is the lists \<open>selected\<close> and \<open>deselected\<close>.\<close>

fun select_items ::
  "plugin_env \<Rightarrow> collected \<Rightarrow> pyval \<Rightarrow> pyval \<Rightarrow> item list \<Rightarrow> error + item list \<times> item list" where
  "select_items env issues bz_filters jr_filters [] = Inr ([], [])"
| "select_items env issues bz_filters jr_filters (it # its) =
     ebind (case get_closest_marker it ''skip_if_open'' of
              None \<Rightarrow> Inr it
            | Some skip_if_open \<Rightarrow>
                ebind (marker_issue skip_if_open) (\<lambda>issue.
                  ebind (is_open env issues issue) (\<lambda>opn.
                    Inr (add_marker it \<lparr>mark_name = ''skipif'', mark_args = [opn],
                                 mark_kwargs = [(''reason'', issue)]\<rparr>)))) (\<lambda>it1.
       if truthy (py_or bz_filters jr_filters) then
         ebind (item_marks it1 ''BZ'') (\<lambda>item_bz_marks.
           ebind (item_marks it1 ''JR'') (\<lambda>item_jr_marks.
             ebind (ebind (py_set bz_filters) (\<lambda>bz.
                      if intersects bz item_bz_marks then Inr True
                      else ebind (py_set jr_filters) (\<lambda>jr. Inr (intersects jr item_jr_marks))))
               (\<lambda>keep.
                 ebind (select_items env issues bz_filters jr_filters its)
                   (\<lambda>(selected, deselected).
                     if keep then Inr (it1 # selected, deselected)
                     else Inr (selected, it1 # deselected)))))
       else
         ebind (select_items env issues bz_filters jr_filters its)
           (\<lambda>(selected, deselected). Inr (it1 # selected, deselected)))"

text \<open>The hook returns the new content of \<open>items\<close> and the list handed to
  \<open>pytest_deselected\<close>.\<close>

definition pytest_collection_modifyitems ::
  "plugin_env \<Rightarrow> config \<Rightarrow> item list \<Rightarrow> error + item list \<times> item list" where
  "pytest_collection_modifyitems env cfg items =
     ebind (generate_issue_collection env items) (\<lambda>(issues, items1).
       select_items env issues (split_filter (opt_BZ cfg)) (split_filter (opt_JR cfg)) items1)"

text \<open>A marker with neither a \<open>reason\<close> keyword nor a positional argument.\<close>

definition lacks_issue :: "mark \<Rightarrow> bool" where
  "lacks_issue m = (map_of (mark_kwargs m) ''reason'' = None \<and> mark_args m = [])"

section \<open>Concrete runs\<close>

text \<open>A run against a server that reports version 6.11, with an API key configured and
  a tracker that cannot be reached.\<close>

definition server_6_11 :: world where
  "server_6_11 =
     \<lparr>issue_data = None, cached_get_data = [], cached_get_single = [],
      api_key = PStr ''secret'', sat_version = [6, 11],
      http = (\<lambda>n numbers. Inl HTTPError), requests_made = 0, slept = 0\<rparr>"

text \<open>The record of the end-to-end scenario: closed as done, fixed in 6.10.\<close>

definition closed_done_6_10 :: pyval where
  "closed_done_6_10 =
     PDict [(''id'', PStr ''SAT-20548''), (''status'', PStr ''Closed''),
            (''resolution'', PStr ''Done''), (''fixVersions'', PList [PVersion [6, 10]])]"

definition new_issue :: pyval where
  "new_issue = PDict [(''id'', PStr ''SAT-1''), (''status'', PStr ''New''), (''resolution'', PNone)]"

definition closed_no_fix_version :: pyval where
  "closed_no_fix_version =
     PDict [(''id'', PStr ''SAT-2''), (''status'', PStr ''Closed''), (''resolution'', PStr ''Done'')]"

text \<open>A closed record whose resolution is the empty string, and one without resolution.\<close>

definition closed_empty_resolution :: pyval where
  "closed_empty_resolution =
     PDict [(''id'', PStr ''SAT-3''), (''status'', PStr ''Closed''), (''resolution'', PStr [])]"

definition closed_null_resolution :: pyval where
  "closed_null_resolution =
     PDict [(''id'', PStr ''SAT-4''), (''status'', PStr ''Closed''), (''resolution'', PNone)]"

text \<open>A record with an open status that carries the answer \<open>is_open = False\<close> of an
  earlier pass, and one with an open status that has been linked to the record it
  duplicates.\<close>

definition processed_backlog :: pyval where
  "processed_backlog =
     PDict [(''id'', PStr ''SAT-5''), (''status'', PStr ''Backlog''), (''resolution'', PNone),
            (''is_open'', PBool False)]"

definition new_duplicate :: pyval where
  "new_duplicate =
     PDict [(''id'', PStr ''SAT-6''), (''status'', PStr ''New''),
            (''resolution'', PStr ''Duplicate''), (''dupe_of'', PStr ''SAT-2''),
            (''dupe_data'', closed_no_fix_version)]"




text \<open>A chain of duplicates: \<open>SAT-10\<close> duplicates \<open>SAT-11\<close>, which duplicates
  \<open>SAT-12\<close>.\<close>

definition issue_c :: pyval where
  "issue_c = PDict [(''id'', PStr ''SAT-12''), (''status'', PStr ''In Progress'')]"

definition issue_b :: pyval where
  "issue_b = PDict [(''id'', PStr ''SAT-11''), (''status'', PStr ''Closed''),
                    (''resolution'', PStr ''Duplicate''), (''dupe_of'', PStr ''SAT-12''),
                    (''dupe_data'', issue_c)]"

definition issue_a :: pyval where
  "issue_a = PDict [(''id'', PStr ''SAT-10''), (''status'', PStr ''Closed''),
                    (''resolution'', PStr ''Duplicate''), (''dupe_of'', PStr ''SAT-11''),
                    (''dupe_data'', issue_b)]"

text \<open>Collaborators that do nothing and never raise: every issue is reported open and
  nothing is deselected.\<close>

definition quiet_env :: plugin_env where
  "quiet_env =
     \<lparr>slugify_component = (\<lambda>c. Inr c),
      scan_source = (\<lambda>it cd. Inr cd),
      resolve_issues = (\<lambda>modules cd. Inr cd),
      should_deselect = (\<lambda>issue data. Inr (PBool False)),
      is_open = (\<lambda>cd issue. Inr (PBool True))\<rparr>"

text \<open>A test whose docstring names Bugzilla 999, and a unit test of the suite itself that
  carries a bare \<open>skip\<close> marker beside its \<open>component\<close> and \<open>importance\<close> markers.\<close>

definition test_one :: item where
  "test_one =
     \<lparr>nodeid = ''tests/foreman/api/test_a.py::test_one'',
      location = (''tests/foreman/api/test_a.py'', 10, ''test_one''),
      item_module = ''tests.foreman.api.test_a'',
      own_markers =
        [\<lparr>mark_name = ''component'', mark_args = [PStr ''Hosts''], mark_kwargs = []\<rparr>,
         \<lparr>mark_name = ''importance'', mark_args = [PStr ''High''], mark_kwargs = []\<rparr>],
      inherited_markers = [],
      doc_bz = [''999''],
      doc_jr = []\<rparr>"

definition bare_skip :: mark where
  "bare_skip = \<lparr>mark_name = ''skip'', mark_args = [], mark_kwargs = []\<rparr>"

definition unit_test :: item where
  "unit_test =
     \<lparr>nodeid = ''tests/robottelo/test_helpers.py::test_unit'',
      location = (''tests/robottelo/test_helpers.py'', 5, ''test_unit''),
      item_module = ''tests.robottelo.test_helpers'',
      own_markers =
        [bare_skip,
         \<lparr>mark_name = ''component'', mark_args = [PStr ''Hosts''], mark_kwargs = []\<rparr>,
         \<lparr>mark_name = ''importance'', mark_args = [PStr ''High''], mark_kwargs = []\<rparr>],
      inherited_markers = [],
      doc_bz = [],
      doc_jr = []\<rparr>"

text \<open>A test outside the unit tests that has no \<open>component\<close> marker, with the same bare
  \<open>skip\<close> marker.\<close>

definition test_three :: item where
  "test_three =
     \<lparr>nodeid = ''tests/foreman/api/test_b.py::test_three'',
      location = (''tests/foreman/api/test_b.py'', 7, ''test_three''),
      item_module = ''tests.foreman.api.test_b'',
      own_markers = [bare_skip],
      inherited_markers = [],
      doc_bz = [],
      doc_jr = []\<rparr>"

text \<open>A test outside the unit tests with \<open>component\<close> and \<open>importance\<close> markers and the
  bare \<open>skip\<close> marker.\<close>

definition test_four :: item where
  "test_four =
     \<lparr>nodeid = ''tests/foreman/api/test_b.py::test_four'',
      location = (''tests/foreman/api/test_b.py'', 30, ''test_four''),
      item_module = ''tests.foreman.api.test_b'',
      own_markers =
        [bare_skip,
         \<lparr>mark_name = ''component'', mark_args = [PStr ''Hosts''], mark_kwargs = []\<rparr>,
         \<lparr>mark_name = ''importance'', mark_args = [PStr ''High''], mark_kwargs = []\<rparr>],
      inherited_markers = [],
      doc_bz = [],
      doc_jr = []\<rparr>"

definition bare_skip_if_open :: mark where
  "bare_skip_if_open = \<lparr>mark_name = ''skip_if_open'', mark_args = [], mark_kwargs = []\<rparr>"

definition test_two :: item where
  "test_two =
     \<lparr>nodeid = ''tests/foreman/api/test_a.py::test_two'',
      location = (''tests/foreman/api/test_a.py'', 20, ''test_two''),
      item_module = ''tests.foreman.api.test_a'',
      own_markers = [bare_skip_if_open],
      inherited_markers = [],
      doc_bz = [],
      doc_jr = []\<rparr>"

text \<open>
  A first run of the collection. The collected data (the object at address 0) holds the
  reference \<open>JR:SAT-1\<close> of one test. The tracker answers every request with the records
  of the requested numbers: \<open>SAT-1\<close> is a duplicate of \<open>SAT-2\<close>, \<open>SAT-2\<close> of \<open>SAT-3\<close>
  and \<open>SAT-3\<close> of \<open>SAT-2\<close>.
\<close>

definition tracker_record :: "string \<Rightarrow> pyval" where
  "tracker_record number =
     (if number = ''SAT-1'' then
        PDict [(''id'', PStr ''SAT-1''), (''status'', PStr ''Closed''),
               (''resolution'', PStr ''Duplicate''), (''dupe_of'', PStr ''SAT-2'')]
      else if number = ''SAT-2'' then
        PDict [(''id'', PStr ''SAT-2''), (''status'', PStr ''Closed''),
               (''resolution'', PStr ''Duplicate''), (''dupe_of'', PStr ''SAT-3'')]
      else if number = ''SAT-3'' then
        PDict [(''id'', PStr ''SAT-3''), (''status'', PStr ''Closed''),
               (''resolution'', PStr ''Duplicate''), (''dupe_of'', PStr ''SAT-2'')]
      else
        PDict [(''id'', PStr number), (''status'', PStr ''New''), (''resolution'', PNone)])"

definition first_run :: session where
  "first_run =
     \<lparr>heap = (\<lambda>a. HDict [])
               (0 := HDict [(''JR:SAT-1'', HRef 1)],
                1 := HDict [(''data'', HRef 2), (''used_in'', HRef 3)],
                2 := HDict [],
                3 := HList []),
      next_free = 4,
      pytest_issue_data = None,
      memo_get_data = [],
      memo_get_single = [],
      jira_api_key = PStr ''secret'',
      server_version = [6, 11],
      tracker = (\<lambda>n numbers. Inr (PDict [(''bugs'', PList (map tracker_record numbers))])),
      requests_sent = 0,
      seconds_slept = 0,
      container_text = (\<lambda>h a. ''{...}'')\<rparr>"

text \<open>The session after the batch has been fetched (the record of \<open>SAT-1\<close> is the object
  at address 4), and after \<open>collect_dupes\<close> has run on that record.\<close>

definition after_fetch :: session where
  "after_fetch = snd (fetch_data first_run [''SAT-1''] HNone)"

definition after_dupes :: session where
  "after_dupes = snd (collect_dupes 1000 after_fetch (HRef 4) 0 HNone)"

text \<open>
  An earlier run that writes the cache file: the tests refer to \<open>JR:SAT-7\<close> and
  \<open>JR:SAT-404\<close>, and the tracker has no record for \<open>SAT-404\<close>.
\<close>

definition earlier_run :: session where
  "earlier_run =
     \<lparr>heap = (\<lambda>a. HDict [])
               (0 := HDict [(''JR:SAT-7'', HRef 1), (''JR:SAT-404'', HRef 4)],
                1 := HDict [(''data'', HRef 2), (''used_in'', HRef 3)],
                2 := HDict [],
                3 := HList [],
                4 := HDict [(''data'', HRef 5), (''used_in'', HRef 6)],
                5 := HDict [],
                6 := HList []),
      next_free = 7,
      pytest_issue_data = None,
      memo_get_data = [],
      memo_get_single = [],
      jira_api_key = PStr ''secret'',
      server_version = [6, 11],
      tracker = (\<lambda>n numbers.
        Inr (PDict [(''bugs'',
               PList (map tracker_record (filter (\<lambda>number. number \<noteq> ''SAT-404'') numbers)))])),
      requests_sent = 0,
      seconds_slept = 0,
      container_text = (\<lambda>h a. ''{...}'')\<rparr>"

text \<open>The collected data at the end of that run.\<close>

definition collected_index :: "(string \<times> pyval) list" where
  "collected_index =
     [(''JR:SAT-7'',
       PDict [(''data'', PDict [(''id'', PStr ''SAT-7''), (''status'', PStr ''New''),
                                (''resolution'', PNone), (''is_open'', PBool True)]),
              (''used_in'', PList [])]),
      (''JR:SAT-404'',
       PDict [(''data'', PDict []), (''used_in'', PList [])])]"

text \<open>
  Modelled from the spec: the cache file is a JSON object that maps each reference to its
  entry \<open>{"data": ..., "used_in": ...}\<close>, plus the reserved entry \<open>_meta\<close>. The encoder
  and the decoder of versions (\<open>VersionEncoder\<close>, \<open>search_version_key\<close>) are not among the
  sources; the entries of this index hold no version, so writing and reading the file
  gives them back as they are.
\<close>

definition cache_file :: pyval where
  "cache_file =
     PDict (collected_index @
            [(''_meta'',
              PDict [(''version'', PVersion [6, 11]), (''hostname'', PStr ''sat.example.com'')])])"

text \<open>The next run, with the same tests, is given that cache data. The tracker is not
  reachable now.\<close>

definition second_run :: session where
  "second_run =
     \<lparr>heap = (\<lambda>a. HDict [])
               (0 := HDict [(''JR:SAT-7'', HRef 1), (''JR:SAT-404'', HRef 4)],
                1 := HDict [(''data'', HRef 2), (''used_in'', HRef 3)],
                2 := HDict [],
                3 := HList [],
                4 := HDict [(''data'', HRef 5), (''used_in'', HRef 6)],
                5 := HDict [],
                6 := HList []),
      next_free = 7,
      pytest_issue_data = None,
      memo_get_data = [],
      memo_get_single = [],
      jira_api_key = PStr ''secret'',
      server_version = [6, 11],
      tracker = (\<lambda>n numbers. Inl HTTPError),
      requests_sent = 0,
      seconds_slept = 0,
      container_text = (\<lambda>h a. ''{...}'')\<rparr>"

definition cache_loaded :: "hval \<times> session" where
  "cache_loaded = build cache_file second_run"

section \<open>Properties of the Jira handler\<close>

subsection \<open>Auxiliary facts\<close>

lemma ebind_Inl [simp]: "ebind (Inl e) f = Inl e"
  by (simp add: ebind_def)

lemma ebind_Inr [simp]: "ebind (Inr x) f = f x"
  by (simp add: ebind_def)

lemma try_from_cache_given: "truthy data \<Longrightarrow> try_from_cache w issue data = (Inr data, w)"
  by (simp add: try_from_cache_def)

lemma follow_duplicates_last:
  "dict_get jr ''dupe_data'' = Inr d \<Longrightarrow> \<not> truthy d \<Longrightarrow> follow_duplicates jr = Inr jr"
  by (subst follow_duplicates.simps) simp

lemma follow_duplicates_next:
  "dict_get jr ''dupe_data'' = Inr d \<Longrightarrow> truthy d \<Longrightarrow> follow_duplicates jr = follow_duplicates d"
  by (subst follow_duplicates.simps) (cases jr; auto split: option.splits)

text \<open>The record that duplicate-following ends on has no duplicate of its own.\<close>

lemma follow_duplicates_end:
  "follow_duplicates jr = Inr jr' \<Longrightarrow> \<exists>d. dict_get jr' ''dupe_data'' = Inr d \<and> \<not> truthy d"
proof (induction jr rule: follow_duplicates.induct)
  case (1 jr)
  show ?case
  proof (cases "dict_get jr ''dupe_data''")
    case (Inl e)
    with "1.prems" show ?thesis by (subst (asm) follow_duplicates.simps) simp
  next
    case (Inr d)
    show ?thesis
    proof (cases "truthy d")
      case True
      from Inr True have "follow_duplicates jr = follow_duplicates d"
        by (rule follow_duplicates_next)
      moreover from Inr True have "py_getitem jr ''dupe_data'' = Inr d"
        by (cases jr; auto split: option.splits)
      ultimately show ?thesis using "1.IH"[OF Inr True] "1.prems" by simp
    next
      case False
      with Inr "1.prems" have "jr' = jr" by (simp add: follow_duplicates_last)
      with Inr False show ?thesis by blast
    qed
  qed
qed

text \<open>When \<open>is_open_jr\<close> computes its answer instead of returning a memoized one, the
  answer is \<open>True\<close> or the object \<open>Version('0')\<close>, and both are true values.\<close>

lemma is_open_jr_computed:
  assumes "try_from_cache w issue data = (Inr jr, w')"
    and "dict_get jr ''is_open'' = Inr PNone"
    and "fst (is_open_jr w issue data) = Inr v"
  shows "v = PBool True \<or> v = PVersion [0]"
  using assms
  by (auto simp: is_open_jr_def ebind_def py_or_def split: sum.splits if_splits)

text \<open>A memoized \<open>is_open\<close> other than \<open>None\<close> is returned as it is (lines 32 and 33).\<close>

lemma is_open_jr_memo:
  assumes "try_from_cache w issue data = (Inr jr, w')"
    and "dict_get jr ''is_open'' = Inr memo"
    and "memo \<noteq> PNone"
  shows "fst (is_open_jr w issue data) = Inr memo"
  using assms
  by (cases jr) (auto simp: is_open_jr_def split: option.splits)

subsection \<open>Open statuses\<close>

text \<open>
  C6, as the code has it. Let \<open>jr\<close> be the record found for the issue. If \<open>jr\<close> carries a
  memoized \<open>is_open\<close> other than \<open>None\<close>, \<open>is_open_jr\<close> returns it, whatever the status
  is. If it carries none and following its duplicates ends on a record whose status is one
  of \<open>New\<close>, \<open>Backlog\<close>, \<open>Refinement\<close>, \<open>To Do\<close>, \<open>In Progress\<close>, \<open>Review\<close>, then
  \<open>is_open_jr\<close> returns \<open>True\<close>, whatever that record holds under \<open>fixVersions\<close> or any
  other key.
\<close>

theorem is_open_jr_open_status:
  assumes "try_from_cache w issue data = (Inr jr, w')"
  shows "(dict_get jr ''is_open'' = Inr memo \<and> memo \<noteq> PNone \<longrightarrow>
            fst (is_open_jr w issue data) = Inr memo) \<and>
         (dict_get jr ''is_open'' = Inr PNone \<and>
          follow_duplicates jr = Inr jr' \<and>
          dict_get jr' ''status'' = Inr (PStr status) \<and>
          status \<in> set OPEN_STATUSES \<longrightarrow>
            fst (is_open_jr w issue data) = Inr (PBool True))"
proof (intro conjI impI)
  assume "dict_get jr ''is_open'' = Inr memo \<and> memo \<noteq> PNone"
  with assms show "fst (is_open_jr w issue data) = Inr memo"
    by (simp add: is_open_jr_memo)
next
  assume "dict_get jr ''is_open'' = Inr PNone \<and>
          follow_duplicates jr = Inr jr' \<and>
          dict_get jr' ''status'' = Inr (PStr status) \<and>
          status \<in> set OPEN_STATUSES"
  with assms show "fst (is_open_jr w issue data) = Inr (PBool True)"
    by (auto simp: is_open_jr_def ebind_def in_tuple_def list_ex_iff)
qed

theorem is_open_jr_open_status_witness:
  "try_from_cache server_6_11 ''JR:SAT-1'' new_issue = (Inr new_issue, server_6_11) \<and>
   dict_get new_issue ''is_open'' = Inr PNone \<and>
   follow_duplicates new_issue = Inr new_issue \<and>
   dict_get new_issue ''status'' = Inr (PStr ''New'') \<and>
   ''New'' \<in> set OPEN_STATUSES \<and>
   fst (is_open_jr server_6_11 ''JR:SAT-1'' new_issue) = Inr (PBool True) \<and>
   try_from_cache server_6_11 ''JR:SAT-5'' processed_backlog = (Inr processed_backlog, server_6_11) \<and>
   dict_get processed_backlog ''is_open'' = Inr (PBool False) \<and>
   PBool False \<noteq> PNone \<and>
   fst (is_open_jr server_6_11 ''JR:SAT-5'' processed_backlog) = Inr (PBool False)"
proof -
  have a: "try_from_cache server_6_11 ''JR:SAT-1'' new_issue = (Inr new_issue, server_6_11)"
    by (simp add: try_from_cache_def new_issue_def)
  have b: "dict_get new_issue ''is_open'' = Inr PNone" by (simp add: new_issue_def)
  have c: "follow_duplicates new_issue = Inr new_issue"
    by (rule follow_duplicates_last[where d = PNone]) (simp_all add: new_issue_def)
  have d: "dict_get new_issue ''status'' = Inr (PStr ''New'')" by (simp add: new_issue_def)
  have e: "''New'' \<in> set OPEN_STATUSES" by (simp add: OPEN_STATUSES_def)
  have f: "try_from_cache server_6_11 ''JR:SAT-5'' processed_backlog = (Inr processed_backlog, server_6_11)"
    by (simp add: try_from_cache_def processed_backlog_def)
  have g: "dict_get processed_backlog ''is_open'' = Inr (PBool False)"
    by (simp add: processed_backlog_def)
  from is_open_jr_open_status[OF a, of PNone new_issue "''New''"] b c d e
  have one: "fst (is_open_jr server_6_11 ''JR:SAT-1'' new_issue) = Inr (PBool True)" by blast
  from is_open_jr_open_status[OF f, of "PBool False"] g
  have two: "fst (is_open_jr server_6_11 ''JR:SAT-5'' processed_backlog) = Inr (PBool False)" by blast
  from a b c d e f g one two show ?thesis by simp
qed

text \<open>The status alone does not decide. A record in status \<open>Backlog\<close> that carries
  \<open>is_open = False\<close> gets \<open>False\<close>: the test of line 32 returns a memoized answer before
  the status is read. A record in status \<open>New\<close> that has \<open>dupe_data\<close> is judged by the
  record its chain ends on (line 35), here a closed one without \<open>fixVersions\<close>, for which
  \<open>min\<close> raises.\<close>

theorem open_status_not_decisive:
  "dict_get processed_backlog ''status'' = Inr (PStr ''Backlog'') \<and>
   ''Backlog'' \<in> set OPEN_STATUSES \<and>
   fst (is_open_jr server_6_11 ''JR:SAT-5'' processed_backlog) = Inr (PBool False) \<and>
   dict_get new_duplicate ''status'' = Inr (PStr ''New'') \<and>
   ''New'' \<in> set OPEN_STATUSES \<and>
   fst (is_open_jr server_6_11 ''JR:SAT-6'' new_duplicate) = Inl TypeError"
proof -
  have "follow_duplicates new_duplicate = follow_duplicates closed_no_fix_version"
    by (rule follow_duplicates_next[where d = closed_no_fix_version])
       (simp_all add: new_duplicate_def closed_no_fix_version_def)
  moreover have "follow_duplicates closed_no_fix_version = Inr closed_no_fix_version"
    by (rule follow_duplicates_last[where d = PNone]) (simp_all add: closed_no_fix_version_def)
  ultimately have "follow_duplicates new_duplicate = Inr closed_no_fix_version" by simp
  then have "fst (is_open_jr server_6_11 ''JR:SAT-6'' new_duplicate) = Inl TypeError"
    by (simp add: is_open_jr_def try_from_cache_def new_duplicate_def closed_no_fix_version_def
        in_tuple_def OPEN_STATUSES_def CLOSED_STATUSES_def WONTFIX_RESOLUTIONS_def py_min_def
        sublist_code)
  moreover have "fst (is_open_jr server_6_11 ''JR:SAT-5'' processed_backlog) = Inr (PBool False)"
    by (simp add: is_open_jr_def try_from_cache_def processed_backlog_def)
  ultimately show ?thesis
    by (simp add: processed_backlog_def new_duplicate_def OPEN_STATUSES_def)
qed

subsection \<open>Fixed issues\<close>

text \<open>
  C1. The record of the end-to-end scenario is closed as \<open>Done\<close> with fix version 6.10,
  and the server reports 6.11. The last line of \<open>is_open_jr\<close> is
  \<open>get_sat_version() < min(...) or Version('0')\<close>: the comparison is false, so the value
  is the object \<open>Version('0')\<close>, which is a true value. The test is skipped.
\<close>

theorem is_open_jr_fixed_issue_truthy:
  "fst (is_open_jr server_6_11 ''JR:SAT-20548'' closed_done_6_10) = Inr (PVersion [0]) \<and>
   truthy (PVersion [0])"
  by (simp add: is_open_jr_def try_from_cache_def closed_done_6_10_def server_6_11_def ebind_def
      in_tuple_def OPEN_STATUSES_def CLOSED_STATUSES_def
      WONTFIX_RESOLUTIONS_def py_min_def py_or_def release_key_def sublist_code)

subsection \<open>Deselection\<close>

text \<open>What \<open>should_deselect_jr\<close> computes for a closed record with a string as
  resolution: whether the resolution occurs in \<open>"Obsolete"\<close>.\<close>

lemma should_deselect_jr_closed:
  assumes "try_from_cache w issue data = (Inr jr, w')"
    and "dict_get jr ''is_deselected'' = Inr PNone"
    and "follow_duplicates jr = Inr jr'"
    and "dict_get jr' ''status'' = Inr (PStr status)"
    and "status \<in> set CLOSED_STATUSES"
    and "dict_get jr' ''resolution'' = Inr (PStr resolution)"
  shows "fst (should_deselect_jr w issue data) = Inr (PBool (sublist resolution ''Obsolete''))"
  using assms
  by (auto simp: should_deselect_jr_def in_tuple_def list_ex_iff WONTFIX_RESOLUTIONS_def)

text \<open>
  C2. \<open>WONTFIX_RESOLUTIONS\<close> is the string \<open>"Obsolete"\<close>, so \<open>in\<close> is the substring
  test: a closed record whose resolution is the empty string is deselected, and a closed
  record without resolution raises \<open>TypeError\<close>.
\<close>

theorem should_deselect_jr_substring:
  "fst (should_deselect_jr server_6_11 ''JR:SAT-3'' closed_empty_resolution) = Inr (PBool True) \<and>
   fst (should_deselect_jr server_6_11 ''JR:SAT-4'' closed_null_resolution) = Inl TypeError"
  by (simp add: should_deselect_jr_def try_from_cache_def closed_empty_resolution_def
      closed_null_resolution_def ebind_def in_tuple_def CLOSED_STATUSES_def WONTFIX_RESOLUTIONS_def)

subsection \<open>Records without fix version\<close>




subsection \<open>Chains of duplicates\<close>

text \<open>
  C7. If the \<open>dupe_data\<close> of record \<open>a\<close> is record \<open>b\<close>, the \<open>dupe_data\<close> of \<open>b\<close>
  is the (non-empty) record \<open>c\<close>, and \<open>c\<close> has no \<open>dupe_data\<close>, then
  \<open>follow_duplicates a\<close> returns \<open>c\<close>; hence \<open>is_open_jr\<close> and \<open>should_deselect_jr\<close>
  answer for \<open>a\<close> what they answer for \<open>c\<close>, memoized answers apart.
\<close>

theorem follow_duplicates_transitive:
  assumes "dict_get a ''dupe_data'' = Inr b"
    and "dict_get b ''dupe_data'' = Inr c"
    and "truthy c"
    and "dict_get c ''dupe_data'' = Inr d"
    and "\<not> truthy d"
  shows "follow_duplicates a = Inr c \<and>
         (dict_get a ''is_open'' = Inr PNone \<and> dict_get c ''is_open'' = Inr PNone \<longrightarrow>
            fst (is_open_jr w issue a) = fst (is_open_jr w issue c)) \<and>
         (dict_get a ''is_deselected'' = Inr PNone \<and> dict_get c ''is_deselected'' = Inr PNone \<longrightarrow>
            fst (should_deselect_jr w issue a) = fst (should_deselect_jr w issue c))"
proof -
  from assms(2,3) have tb: "truthy b" by (cases b) auto
  from assms(1) tb have ta: "truthy a" by (cases a) auto
  have fc: "follow_duplicates c = Inr c" using assms(4,5) by (rule follow_duplicates_last)
  have fb: "follow_duplicates b = Inr c" using follow_duplicates_next[OF assms(2,3)] fc by simp
  have fa: "follow_duplicates a = Inr c" using follow_duplicates_next[OF assms(1) tb] fb by simp
  show ?thesis using fa fc ta assms(3)
    by (simp add: is_open_jr_def should_deselect_jr_def try_from_cache_given ebind_def)
qed

theorem follow_duplicates_transitive_witness:
  "dict_get issue_a ''dupe_data'' = Inr issue_b \<and>
   dict_get issue_b ''dupe_data'' = Inr issue_c \<and>
   truthy issue_c \<and>
   dict_get issue_c ''dupe_data'' = Inr PNone \<and>
   \<not> truthy PNone \<and>
   follow_duplicates issue_a = Inr issue_c \<and>
   fst (is_open_jr server_6_11 ''JR:SAT-10'' issue_a) = fst (is_open_jr server_6_11 ''JR:SAT-12'' issue_c) \<and>
   fst (is_open_jr server_6_11 ''JR:SAT-10'' issue_a) = Inr (PBool True)"
proof -
  have a: "dict_get issue_a ''dupe_data'' = Inr issue_b" by (simp add: issue_a_def)
  have b: "dict_get issue_b ''dupe_data'' = Inr issue_c" by (simp add: issue_b_def)
  have c: "truthy issue_c" by (simp add: issue_c_def)
  have d: "dict_get issue_c ''dupe_data'' = Inr PNone" by (simp add: issue_c_def)
  have e: "\<not> truthy PNone" by simp
  have ma: "dict_get issue_a ''is_open'' = Inr PNone" by (simp add: issue_a_def)
  have mc: "dict_get issue_c ''is_open'' = Inr PNone" by (simp add: issue_c_def)
  note t = follow_duplicates_transitive[OF a b c d e, of server_6_11 "''JR:SAT-10''"]
  have oc: "fst (is_open_jr server_6_11 ''JR:SAT-12'' issue_c) = Inr (PBool True)"
    by (simp add: is_open_jr_def try_from_cache_def issue_c_def ebind_def in_tuple_def OPEN_STATUSES_def)
  have same: "fst (is_open_jr server_6_11 ''JR:SAT-12'' issue_c) = fst (is_open_jr server_6_11 ''JR:SAT-10'' issue_c)"
    using c by (simp add: is_open_jr_def try_from_cache_given)
  from t ma mc a b c d oc same show ?thesis by simp
qed

subsection \<open>Failing requests\<close>

lemma get_data_jr_body_fails:
  assumes "jr_numbers \<noteq> []"
    and "\<not> truthy (case map_of (cached_get_data w) (sort jr_numbers) of None \<Rightarrow> PNone | Some v \<Rightarrow> v)"
    and "\<not> truthy cached_data"
    and "truthy (api_key w)"
    and "ebind (http w (requests_made w) jr_numbers) (\<lambda>body. dict_get body ''bugs'') = Inl e"
  shows "get_data_jr_body w jr_numbers cached_data = (Inl e, w\<lparr>requests_made := requests_made w + 1\<rparr>)"
  using assms by (simp add: get_data_jr_body_def Let_def)

text \<open>
  C4, as the code has it. Let the batch be non-empty, with no memoized answer and no cache
  data. With an API key, if each of the four attempts fails, \<open>get_data_jr\<close> raises
  \<open>RetryError\<close> after four requests and three waits of 20 seconds. Default records, one
  per requested number, are the answer only when no API key is configured.
\<close>

theorem get_data_jr_retries_then_raises:
  assumes "jr_numbers \<noteq> []"
    and "\<not> truthy (case map_of (cached_get_data w) (sort jr_numbers) of None \<Rightarrow> PNone | Some v \<Rightarrow> v)"
    and "\<not> truthy cached_data"
  shows "(truthy (api_key w) \<and>
          (\<forall>n<4. \<exists>e. ebind (http w (requests_made w + n) jr_numbers) (\<lambda>body. dict_get body ''bugs'') = Inl e)
          \<longrightarrow> get_data_jr w jr_numbers cached_data =
                (Inl RetryError, w\<lparr>requests_made := requests_made w + 4, slept := slept w + 60\<rparr>)) \<and>
         (\<not> truthy (api_key w)
          \<longrightarrow> get_data_jr w jr_numbers cached_data = (Inr (PList (map (\<lambda>number. get_default_jr (PStr number)) jr_numbers)), w))"
proof (intro conjI impI)
  assume "\<not> truthy (api_key w)"
  with assms show "get_data_jr w jr_numbers cached_data = (Inr (PList (map (\<lambda>number. get_default_jr (PStr number)) jr_numbers)), w)"
    by (simp add: get_data_jr_def numeral_eq_Suc get_data_jr_body_def Let_def)
next
  assume h: "truthy (api_key w) \<and>
     (\<forall>n<4. \<exists>e. ebind (http w (requests_made w + n) jr_numbers) (\<lambda>body. dict_get body ''bugs'') = Inl e)"
  then have key: "truthy (api_key w)" by simp
  from h obtain e0 e1 e2 e3 where
    e0: "ebind (http w (requests_made w) jr_numbers) (\<lambda>body. dict_get body ''bugs'') = Inl e0" and
    e1: "ebind (http w (requests_made w + 1) jr_numbers) (\<lambda>body. dict_get body ''bugs'') = Inl e1" and
    e2: "ebind (http w (requests_made w + 2) jr_numbers) (\<lambda>body. dict_get body ''bugs'') = Inl e2" and
    e3: "ebind (http w (requests_made w + 3) jr_numbers) (\<lambda>body. dict_get body ''bugs'') = Inl e3"
  proof -
    from h have fails: "\<exists>e. ebind (http w (requests_made w + n) jr_numbers) (\<lambda>body. dict_get body ''bugs'') = Inl e"
      if "n < 4" for n using that by blast
    from fails[of 0] fails[of 1] fails[of 2] fails[of 3] that show thesis by auto
  qed
  define w1 where "w1 = w\<lparr>requests_made := requests_made w + 1, slept := slept w + 20\<rparr>"
  define w2 where "w2 = w\<lparr>requests_made := requests_made w + 2, slept := slept w + 40\<rparr>"
  define w3 where "w3 = w\<lparr>requests_made := requests_made w + 3, slept := slept w + 60\<rparr>"
  have b0: "get_data_jr_body w jr_numbers cached_data = (Inl e0, w\<lparr>requests_made := requests_made w + 1\<rparr>)"
    using assms key e0 by (rule get_data_jr_body_fails)
  have b1: "get_data_jr_body w1 jr_numbers cached_data = (Inl e1, w1\<lparr>requests_made := requests_made w1 + 1\<rparr>)"
    by (rule get_data_jr_body_fails) (use assms key e1 in \<open>simp_all add: w1_def\<close>)
  have b2: "get_data_jr_body w2 jr_numbers cached_data = (Inl e2, w2\<lparr>requests_made := requests_made w2 + 1\<rparr>)"
    by (rule get_data_jr_body_fails) (use assms key e2 in \<open>simp_all add: w2_def\<close>)
  have b3: "get_data_jr_body w3 jr_numbers cached_data = (Inl e3, w3\<lparr>requests_made := requests_made w3 + 1\<rparr>)"
    by (rule get_data_jr_body_fails) (use assms key e3 in \<open>simp_all add: w3_def\<close>)
  have s1: "(w\<lparr>requests_made := requests_made w + 1\<rparr>)\<lparr>slept := slept (w\<lparr>requests_made := requests_made w + 1\<rparr>) + 20\<rparr> = w1"
    by (simp add: w1_def)
  have s2: "(w1\<lparr>requests_made := requests_made w1 + 1\<rparr>)\<lparr>slept := slept (w1\<lparr>requests_made := requests_made w1 + 1\<rparr>) + 20\<rparr> = w2"
    by (simp add: w1_def w2_def)
  have s3: "(w2\<lparr>requests_made := requests_made w2 + 1\<rparr>)\<lparr>slept := slept (w2\<lparr>requests_made := requests_made w2 + 1\<rparr>) + 20\<rparr> = w3"
    by (simp add: w2_def w3_def)
  have "retrying (Suc 0) w3 jr_numbers cached_data = (Inl RetryError, w3\<lparr>requests_made := requests_made w3 + 1\<rparr>)"
    using b3 by simp
  then have "retrying (Suc (Suc 0)) w2 jr_numbers cached_data = (Inl RetryError, w3\<lparr>requests_made := requests_made w3 + 1\<rparr>)"
    using b2 s3 by simp
  then have "retrying (Suc (Suc (Suc 0))) w1 jr_numbers cached_data = (Inl RetryError, w3\<lparr>requests_made := requests_made w3 + 1\<rparr>)"
    using b1 s2 by simp
  then have "retrying (Suc (Suc (Suc (Suc 0)))) w jr_numbers cached_data = (Inl RetryError, w3\<lparr>requests_made := requests_made w3 + 1\<rparr>)"
    using b0 s1 by simp
  moreover have "w3\<lparr>requests_made := requests_made w3 + 1\<rparr> = w\<lparr>requests_made := requests_made w + 4, slept := slept w + 60\<rparr>"
    by (simp add: w3_def)
  ultimately show "get_data_jr w jr_numbers cached_data =
      (Inl RetryError, w\<lparr>requests_made := requests_made w + 4, slept := slept w + 60\<rparr>)"
    by (simp add: get_data_jr_def numeral_eq_Suc)
qed

theorem get_data_jr_retries_then_raises_witness:
  "[''SAT-1''] \<noteq> [] \<and>
   \<not> truthy (case map_of (cached_get_data server_6_11) (sort [''SAT-1'']) of
                None \<Rightarrow> PNone | Some v \<Rightarrow> v) \<and>
   \<not> truthy PNone \<and>
   truthy (api_key server_6_11) \<and>
   (\<forall>n. http server_6_11 n [''SAT-1''] = Inl HTTPError) \<and>
   get_data_jr server_6_11 [''SAT-1''] PNone =
     (Inl RetryError, server_6_11\<lparr>requests_made := 4, slept := 60\<rparr>) \<and>
   \<not> truthy (api_key (server_6_11\<lparr>api_key := PNone\<rparr>)) \<and>
   get_data_jr (server_6_11\<lparr>api_key := PNone\<rparr>) [''SAT-1''] PNone =
     (Inr (PList [get_default_jr (PStr ''SAT-1'')]), server_6_11\<lparr>api_key := PNone\<rparr>)"
proof -
  have a: "[''SAT-1''] \<noteq> []" by simp
  have b: "\<not> truthy (case map_of (cached_get_data server_6_11) (sort [''SAT-1'']) of
                None \<Rightarrow> PNone | Some v \<Rightarrow> v)"
    by (simp add: server_6_11_def)
  have b': "\<not> truthy (case map_of (cached_get_data (server_6_11\<lparr>api_key := PNone\<rparr>)) (sort [''SAT-1'']) of
                None \<Rightarrow> PNone | Some v \<Rightarrow> v)"
    by (simp add: server_6_11_def)
  have c: "\<not> truthy PNone" by simp
  have k: "truthy (api_key server_6_11)" by (simp add: server_6_11_def)
  have f: "\<forall>n. http server_6_11 n [''SAT-1''] = Inl HTTPError" by (simp add: server_6_11_def)
  have r: "requests_made server_6_11 = 0" "slept server_6_11 = 0" by (simp_all add: server_6_11_def)
  from get_data_jr_retries_then_raises[OF a b c] k f r
  have one: "get_data_jr server_6_11 [''SAT-1''] PNone =
     (Inl RetryError, server_6_11\<lparr>requests_made := 4, slept := 60\<rparr>)"
    by (simp add: ebind_def)
  from get_data_jr_retries_then_raises[OF a b' c]
  have two: "get_data_jr (server_6_11\<lparr>api_key := PNone\<rparr>) [''SAT-1''] PNone =
     (Inr (PList [get_default_jr (PStr ''SAT-1'')]), server_6_11\<lparr>api_key := PNone\<rparr>)"
    by simp
  from a b c k f one two show ?thesis by simp
qed

text \<open>With a key configured and a tracker that answers every request with an error, the
  batch does not yield default records: \<open>RetryError\<close> leaves \<open>get_data_jr\<close> and passes
  through \<open>get_single_jr\<close>, \<open>try_from_cache\<close> and \<open>is_open_jr\<close>.\<close>

theorem get_data_jr_outage_propagates:
  "fst (get_data_jr server_6_11 [''SAT-1''] PNone) = Inl RetryError \<and>
   fst (get_data_jr server_6_11 [''SAT-1''] PNone) \<noteq> Inr (PList (map (\<lambda>number. get_default_jr (PStr number)) [''SAT-1''])) \<and>
   fst (get_single_jr server_6_11 ''SAT-1'' PNone) = Inl RetryError \<and>
   fst (is_open_jr server_6_11 ''JR:SAT-1'' PNone) = Inl RetryError"
  by (simp add: get_data_jr_def numeral_eq_Suc get_data_jr_body_def Let_def server_6_11_def
      get_single_jr_def is_open_jr_def try_from_cache_def after_colon_def py_or_def ebind_def)

text \<open>With cache data at hand \<open>get_data_jr\<close> sends no request, whatever the cache
  holds.\<close>

lemma get_data_jr_body_cached:
  assumes "truthy cached_data"
  shows "snd (get_data_jr_body w jr_numbers cached_data) = w"
  using assms by (simp add: get_data_jr_body_def Let_def)

lemma retrying_cached:
  "truthy cached_data \<Longrightarrow>
   requests_made (snd (retrying n w jr_numbers cached_data)) = requests_made w"
proof (induction n arbitrary: w)
  case 0
  then show ?case by simp
next
  case (Suc n)
  obtain r w' where body: "get_data_jr_body w jr_numbers cached_data = (r, w')"
    by (cases "get_data_jr_body w jr_numbers cached_data") auto
  with get_data_jr_body_cached[OF Suc.prems, of w jr_numbers] have w': "w' = w" by simp
  show ?case
  proof (cases n)
    case 0
    with body w' show ?thesis by (cases r) simp_all
  next
    case (Suc k)
    with body w' Suc.IH[OF Suc.prems, of "w\<lparr>slept := slept w + 20\<rparr>"] show ?thesis
      by (cases r) simp_all
  qed
qed

lemma get_data_jr_cached_no_request:
  "truthy cached_data \<Longrightarrow>
   requests_made (snd (get_data_jr w jr_numbers cached_data)) = requests_made w"
  by (simp add: get_data_jr_def retrying_cached)

section \<open>Properties of the collected objects\<close>

subsection \<open>Cyclic chains\<close>

text \<open>What the first run builds: the batch is the one record of \<open>SAT-1\<close>, and
  \<open>collect_dupes\<close> links it to the record of \<open>SAT-2\<close> (at address 9), that one to the record
  of \<open>SAT-3\<close> (at address 17), and that one back to the record of \<open>SAT-2\<close>, the object
  that \<open>get_single_jr\<close> has kept for this number.\<close>

lemma first_run_fetch:
  "fst (fetch_data first_run [''SAT-1''] HNone) = Inr (HRef 5) \<and>
   heap after_fetch 5 = HList [HRef 4]"
  unfolding after_fetch_def by code_simp

lemma first_run_links:
  "fst (collect_dupes 1000 after_fetch (HRef 4) 0 HNone) = Inr () \<and>
   h_get (heap after_dupes) (HRef 4) ''dupe_data'' = Inr (HRef 9) \<and>
   h_get (heap after_dupes) (HRef 9) ''dupe_data'' = Inr (HRef 17) \<and>
   h_get (heap after_dupes) (HRef 17) ''dupe_data'' = Inr (HRef 9) \<and>
   h_get (heap after_dupes) (HRef 9) ''id'' = Inr (HStr ''SAT-2'') \<and>
   h_get (heap after_dupes) (HRef 17) ''id'' = Inr (HStr ''SAT-3'')"
  unfolding after_dupes_def after_fetch_def by code_simp


lemma first_run_cycle_facts:
  "h_item (heap after_dupes) (HRef 4) ''dupe_data'' = Inr (HRef 9) \<and>
   h_item (heap after_dupes) (HRef 9) ''dupe_data'' = Inr (HRef 17) \<and>
   h_item (heap after_dupes) (HRef 17) ''dupe_data'' = Inr (HRef 9) \<and>
   truthy_h (heap after_dupes) (HRef 9) \<and>
   truthy_h (heap after_dupes) (HRef 17)"
  unfolding after_dupes_def after_fetch_def by code_simp

lemma follow_duplicates_obj_cycle:
  "follow_duplicates_obj frames (heap after_dupes) (HRef 9) = Inl RecursionError \<and>
   follow_duplicates_obj frames (heap after_dupes) (HRef 17) = Inl RecursionError"
  using first_run_links first_run_cycle_facts by (induction frames) simp_all

text \<open>
  C3. On the record that the first run has collected for \<open>SAT-1\<close>, whose chain of
  duplicates runs into two records that are each other's \<open>dupe_data\<close>, the recursion of
  \<open>follow_duplicates\<close> never ends by itself: whatever number of frames the interpreter
  allows, the call ends in \<open>RecursionError\<close>.
\<close>

theorem follow_duplicates_cyclic_recursion_error:
  "\<forall>frames. follow_duplicates_obj frames (heap after_dupes) (HRef 4) = Inl RecursionError"
proof
  fix frames
  show "follow_duplicates_obj frames (heap after_dupes) (HRef 4) = Inl RecursionError"
    using first_run_links first_run_cycle_facts follow_duplicates_obj_cycle
    by (cases frames) simp_all
qed

text \<open>The whole collection of the first run ends in that error, after three requests
  (here with a hundred frames).\<close>

lemma first_run_recursion_error:
  "fst (collect_data_jr 100 first_run 0 HNone) = Inl RecursionError \<and>
   requests_sent (snd (collect_data_jr 100 first_run 0 HNone)) = 3"
  by code_simp

text \<open>Where the objects below a record form a finite tree, one frame more than the tree
  is deep is enough, and the result is the one computed on the nested value.\<close>

lemma items_of_lookup:
  "items_of n h kvs = Some kvs' \<Longrightarrow>
   map_of kvs' k = (case map_of kvs k of None \<Rightarrow> None | Some x \<Rightarrow> value_of n h x)"
  by (induction kvs arbitrary: kvs') (auto split: option.splits)

lemma items_of_defined:
  "items_of n h kvs = Some kvs' \<Longrightarrow> map_of kvs k = Some x \<Longrightarrow> \<exists>v. value_of n h x = Some v"
  by (induction kvs arbitrary: kvs') (auto split: option.splits if_splits)

lemma values_of_Nil: "values_of n h xs = Some vs \<Longrightarrow> (vs = []) = (xs = [])"
  by (cases xs) (auto split: option.splits)

lemma items_of_Nil: "items_of n h kvs = Some kvs' \<Longrightarrow> (kvs' = []) = (kvs = [])"
  by (cases kvs) (auto split: option.splits)

lemma value_of_truthy: "value_of n h x = Some v \<Longrightarrow> truthy v = truthy_h h x"
  by (cases x; cases n) (auto split: hobj.splits dest: values_of_Nil items_of_Nil)

lemma follow_duplicates_obj_refines:
  "value_of n h x = Some v \<Longrightarrow>
   (\<exists>y m v'. follow_duplicates_obj (Suc n) h x = Inr y \<and> value_of m h y = Some v' \<and>
              follow_duplicates v = Inr v') \<or>
   (follow_duplicates_obj (Suc n) h x = Inl AttributeError \<and>
    follow_duplicates v = Inl AttributeError)"
proof (induction n arbitrary: x v)
  case 0
  then show ?case by (cases x) auto
next
  case (Suc n)
  show ?case
  proof (cases x)
    case (HRef a)
    show ?thesis
    proof (cases "h a")
      case (HList xs)
      with HRef Suc.prems show ?thesis by auto
    next
      case (HDict kvs)
      with HRef Suc.prems obtain kvs' where
        items: "items_of n h kvs = Some kvs'" and v: "v = PDict kvs'"
        by auto
      show ?thesis
      proof (cases "map_of kvs ''dupe_data''")
        case None
        with items have "map_of kvs' ''dupe_data'' = None" by (simp add: items_of_lookup)
        then have "follow_duplicates v = Inr v"
          unfolding v by (subst follow_duplicates.simps) simp
        moreover have "follow_duplicates_obj (Suc (Suc n)) h x = Inr x"
          using None HDict HRef by simp
        ultimately show ?thesis using Suc.prems by blast
      next
        case (Some d)
        from items_of_defined[OF items Some] obtain vd where vd: "value_of n h d = Some vd"
          by blast
        with items Some have look: "map_of kvs' ''dupe_data'' = Some vd"
          by (simp add: items_of_lookup)
        have t: "truthy vd = truthy_h h d" using vd by (rule value_of_truthy)
        show ?thesis
        proof (cases "truthy vd")
          case True
          have "follow_duplicates v = follow_duplicates vd"
            unfolding v using look True by (subst follow_duplicates.simps) simp
          moreover have "follow_duplicates_obj (Suc (Suc n)) h x = follow_duplicates_obj (Suc n) h d"
            using HDict HRef Some True t by simp
          ultimately show ?thesis using Suc.IH[OF vd] by simp
        next
          case False
          have "follow_duplicates v = Inr v"
            unfolding v using look False by (subst follow_duplicates.simps) simp
          moreover have "follow_duplicates_obj (Suc (Suc n)) h x = Inr x"
            using HDict HRef Some False t by simp
          ultimately show ?thesis using Suc.prems by blast
        qed
      qed
    qed
  qed (use Suc.prems in auto)
qed

subsection \<open>Collecting from a cache file\<close>

text \<open>The earlier run ends without error, and its collected data are the index of
  \<open>cache_file\<close>: the entry of \<open>JR:SAT-404\<close> keeps the empty \<open>data\<close> that the
  \<open>defaultdict\<close> gave it.\<close>

lemma earlier_run_index:
  "fst (collect_data_jr 100 earlier_run 0 HNone) = Inr () \<and>
   value_of 3 (heap (snd (collect_data_jr 100 earlier_run 0 HNone))) (HRef 0)
     = Some (PDict collected_index)"
  by code_simp

text \<open>During that run \<open>is_open_jr\<close> answers for both references: the record of \<open>SAT-7\<close> is
  open, and \<open>SAT-404\<close> gets the default record.\<close>

lemma earlier_run_resolves:
  "fst (is_open_obj 100
          ((snd (collect_data_jr 100 earlier_run 0 HNone))\<lparr>pytest_issue_data := Some 0\<rparr>)
          ''JR:SAT-404'' HNone) = Inr (HBool True) \<and>
   fst (is_open_obj 100
          ((snd (collect_data_jr 100 earlier_run 0 HNone))\<lparr>pytest_issue_data := Some 0\<rparr>)
          ''JR:SAT-7'' HNone) = Inr (HBool True)"
  by code_simp

text \<open>
  C8. The next run is given the cache data of \<open>cache_file\<close>. \<open>get_data_jr\<close> hands back
  the \<open>data\<close> of every entry, and the loop of \<open>collect_data_jr\<close> raises \<open>KeyError\<close> at
  \<open>data['id']\<close> of the empty one. No request is sent.
\<close>

theorem cache_with_empty_entry_raises:
  "fst (collect_data_jr 100 (snd cache_loaded) 0 (fst cache_loaded)) = Inl KeyError \<and>
   requests_sent (snd (collect_data_jr 100 (snd cache_loaded) 0 (fst cache_loaded))) = 0"
  unfolding cache_loaded_def by code_simp

section \<open>Properties of the collection plugin\<close>

subsection \<open>Auxiliary facts\<close>

lemma marker_issue_lacks: "lacks_issue m \<Longrightarrow> marker_issue m = Inl IndexError"
  by (simp add: lacks_issue_def marker_issue_def)

lemma collect_markers_lacks:
  assumes "m \<in> set ms" and "mark_name m \<in> set valid_markers" and "lacks_issue m"
  shows "\<exists>e. collect_markers it c i s ms acc = Inl e"
  using assms(1)
proof (induction ms arbitrary: acc)
  case Nil
  then show ?case by simp
next
  case (Cons marker rest)
  obtain st bz jr where acc: "acc = (st, bz, jr)" by (cases acc) auto
  show ?case
  proof (cases "marker = m")
    case True
    with assms(2,3) show ?thesis by (simp add: acc marker_issue_lacks)
  next
    case False
    with Cons.prems have in_rest: "m \<in> set rest" by simp
    show ?thesis
    proof (cases "mark_name marker \<in> set valid_markers")
      case False
      with Cons.IH[OF in_rest] show ?thesis by (simp add: acc)
    next
      case True
      show ?thesis
      proof (cases "marker_issue marker")
        case (Inl e)
        with True show ?thesis by (simp add: acc)
      next
        case issue: (Inr issue)
        show ?thesis
        proof (cases "py_strip issue")
          case (Inl e)
          with True issue show ?thesis by (simp add: acc)
        next
          case key: (Inr issue_key)
          show ?thesis
          proof (cases "append_used_in (collected_data st) issue_key
                     (PDict [(''filepath'', PStr (fst (location it))),
                             (''lineno'', PInt (fst (snd (location it)))),
                             (''testcase'', PStr (snd (snd (location it)))),
                             (''component'', c),
                             (''importance'', i),
                             (''component_mark'', s),
                             (''usage'', PStr (mark_name marker))])")
            case (Inl e)
            with True issue key show ?thesis by (simp add: acc)
          next
            case (Inr cd)
            with True issue key Cons.IH[OF in_rest] show ?thesis by (simp add: acc)
          qed
        qed
      qed
    qed
  qed
qed

lemma collect_item_lacks:
  assumes "\<not> prefix ''tests/robottelo/'' (nodeid it)"
    and "get_closest_marker it ''component'' \<noteq> None"
    and "m \<in> set (iter_markers it)" and "mark_name m \<in> set valid_markers" and "lacks_issue m"
  shows "\<exists>e. collect_item env st it = Inl e"
proof -
  from assms(2) obtain components where comp: "get_closest_marker it ''component'' = Some components"
    by auto
  note cm = collect_markers_lacks[OF assms(3,4,5)]
  show ?thesis
  proof (cases "first_arg (Some components)")
    case (Inl e)
    with assms(1) comp show ?thesis by (simp add: collect_item_def)
  next
    case c: (Inr component_mark)
    show ?thesis
    proof (cases "slugify_component env component_mark")
      case (Inl e)
      with assms(1) comp c show ?thesis by (simp add: collect_item_def)
    next
      case s: (Inr component_slug)
      show ?thesis
      proof (cases "first_arg (get_closest_marker it ''importance'')")
        case (Inl e)
        with assms(1) comp c s show ?thesis by (simp add: collect_item_def)
      next
        case i: (Inr importance_mark)
        from cm obtain e where "collect_markers it component_mark importance_mark component_slug
            (iter_markers it)
            (st\<lparr>test_modules := List.insert (item_module it) (test_modules st)\<rparr>, doc_bz it, doc_jr it) = Inl e"
          by blast
        with assms(1) comp c s i show ?thesis by (simp add: collect_item_def)
      qed
    qed
  qed
qed

lemma collect_items_raises:
  assumes "it \<in> set items" and "\<And>st. \<exists>e. collect_item env st it = Inl e"
  shows "\<exists>e. collect_items env st items = Inl e"
  using assms(1)
proof (induction items arbitrary: st)
  case Nil
  then show ?case by simp
next
  case (Cons x xs)
  show ?case
  proof (cases "collect_item env st x")
    case (Inl e)
    then show ?thesis by simp
  next
    case (Inr r)
    obtain st1 it1 where r: "r = (st1, it1)" by (cases r) auto
    from Inr assms(2)[of st] have "x \<noteq> it" by auto
    with Cons.prems have "it \<in> set xs" by simp
    from Cons.IH[OF this, of st1] obtain e where "collect_items env st1 xs = Inl e" by blast
    with Inr r show ?thesis by simp
  qed
qed

lemma find_append_other:
  "find P (xs @ [m] @ ys) = find P (xs @ ys)" if "\<not> P m"
  using that by (induction xs) auto

lemma closest_add_marker:
  "mark_name m \<noteq> name \<Longrightarrow> get_closest_marker (add_marker it m) name = get_closest_marker it name"
  using find_append_other[of "\<lambda>x. mark_name x = name" m "own_markers it" "inherited_markers it"]
  by (simp add: get_closest_marker_def add_marker_def iter_markers_def)

lemma closest_deselect:
  "get_closest_marker (add_marker x \<lparr>mark_name = ''deselect'', mark_args = a, mark_kwargs = k\<rparr>)
     ''skip_if_open'' = get_closest_marker x ''skip_if_open''"
  by (simp add: closest_add_marker)

lemma collect_item_closest:
  assumes "collect_item env st it = Inr (st', it')"
  shows "get_closest_marker it' ''skip_if_open'' = get_closest_marker it ''skip_if_open''"
  using assms
  by (auto simp: collect_item_def Let_def ebind_def closest_add_marker
      split: if_splits option.splits sum.splits prod.splits)

lemma collect_items_closest:
  "collect_items env st items = Inr (st', items') \<Longrightarrow>
   list_all2 (\<lambda>it it'. get_closest_marker it' ''skip_if_open'' = get_closest_marker it ''skip_if_open'')
     items items'"
proof (induction items arbitrary: st st' items')
  case Nil
  then show ?case by simp
next
  case (Cons x xs)
  from Cons.prems obtain st1 x1 st2 xs1 where
    a: "collect_item env st x = Inr (st1, x1)" and
    b: "collect_items env st1 xs = Inr (st2, xs1)" and
    c: "items' = x1 # xs1"
    by (auto simp: ebind_def split: sum.splits prod.splits)
  from collect_item_closest[OF a] Cons.IH[OF b] c show ?case by simp
qed

lemma add_deselect_markers_closest:
  "add_deselect_markers env dd cd items = Inr (cd', items') \<Longrightarrow>
   list_all2 (\<lambda>it it'. get_closest_marker it' ''skip_if_open'' = get_closest_marker it ''skip_if_open'')
     items items'"
proof (induction items arbitrary: cd cd' items')
  case Nil
  then show ?case by simp
next
  case (Cons x xs)
  from Cons.prems have "\<exists>cd1 cd2 x1 xs1.
      add_deselect_markers env dd cd1 xs = Inr (cd2, xs1) \<and> items' = x1 # xs1 \<and>
      get_closest_marker x1 ''skip_if_open'' = get_closest_marker x ''skip_if_open''"
    by (fastforce simp: ebind_def Let_def closest_deselect
        split: sum.splits prod.splits option.splits if_splits)
  then obtain cd1 cd2 x1 xs1 where
    b: "add_deselect_markers env dd cd1 xs = Inr (cd2, xs1)" and
    c: "items' = x1 # xs1" and
    d: "get_closest_marker x1 ''skip_if_open'' = get_closest_marker x ''skip_if_open''"
    by blast
  from d Cons.IH[OF b] c show ?case by simp
qed

lemma select_items_lacks:
  assumes "it \<in> set items" and "get_closest_marker it ''skip_if_open'' = Some m" and "lacks_issue m"
  shows "\<exists>e. select_items env issues bz jr items = Inl e"
  using assms(1)
proof (induction items)
  case Nil
  then show ?case by simp
next
  case (Cons x xs)
  show ?case
  proof (cases "x = it")
    case True
    with assms(2,3) show ?thesis by (simp add: marker_issue_lacks)
  next
    case False
    with Cons have "\<exists>e. select_items env issues bz jr xs = Inl e" by simp
    then obtain e where e: "select_items env issues bz jr xs = Inl e" by blast
    show ?thesis
      by (simp add: e ebind_def split: sum.splits option.splits)
  qed
qed


lemma list_all2_member:
  "list_all2 R xs ys \<Longrightarrow> x \<in> set xs \<Longrightarrow> \<exists>y \<in> set ys. R x y"
  by (induction rule: list_all2_induct) auto

lemma generate_issue_collection_closest:
  assumes "generate_issue_collection env items = Inr (cd, items')" and "it \<in> set items"
  shows "\<exists>it' \<in> set items'. get_closest_marker it' ''skip_if_open'' = get_closest_marker it ''skip_if_open''"
proof -
  from assms(1) obtain st items1 cd1 where
    a: "collect_items env \<lparr>collected_data = [], deselect_data = [], test_modules = []\<rparr> items = Inr (st, items1)" and
    b: "add_deselect_markers env (deselect_data st) cd1 items1 = Inr (cd, items')"
    by (auto simp: generate_issue_collection_def ebind_def split: sum.splits prod.splits)
  from list_all2_member[OF collect_items_closest[OF a] assms(2)] obtain it1 where
    it1: "it1 \<in> set items1" "get_closest_marker it1 ''skip_if_open'' = get_closest_marker it ''skip_if_open''"
    by blast
  from list_all2_member[OF add_deselect_markers_closest[OF b] it1(1)] obtain it2 where
    "it2 \<in> set items'" "get_closest_marker it2 ''skip_if_open'' = get_closest_marker it1 ''skip_if_open''"
    by blast
  with it1(2) show ?thesis by auto
qed

subsection \<open>Markers without issue reference\<close>

text \<open>The hook raises for an item whose closest \<open>skip_if_open\<close> marker has no issue
  reference, and for an item outside \<open>tests/robottelo/\<close> with a \<open>component\<close> marker that
  carries any marker of the allow-list without issue reference.\<close>

lemma collection_raises:
  assumes "it \<in> set items"
    and "(\<exists>m. get_closest_marker it ''skip_if_open'' = Some m \<and> lacks_issue m) \<or>
         (\<not> prefix ''tests/robottelo/'' (nodeid it) \<and>
          get_closest_marker it ''component'' \<noteq> None \<and>
          (\<exists>m. m \<in> set (iter_markers it) \<and> mark_name m \<in> set valid_markers \<and> lacks_issue m))"
  shows "\<exists>e. pytest_collection_modifyitems env cfg items = Inl e"
proof (cases "generate_issue_collection env items")
  case (Inl e)
  then show ?thesis by (simp add: pytest_collection_modifyitems_def)
next
  case (Inr r)
  obtain cd items' where r: "r = (cd, items')" by (cases r) auto
  have "\<not> (\<not> prefix ''tests/robottelo/'' (nodeid it) \<and>
          get_closest_marker it ''component'' \<noteq> None \<and>
          (\<exists>m. m \<in> set (iter_markers it) \<and> mark_name m \<in> set valid_markers \<and> lacks_issue m))"
  proof
    assume h: "\<not> prefix ''tests/robottelo/'' (nodeid it) \<and>
          get_closest_marker it ''component'' \<noteq> None \<and>
          (\<exists>m. m \<in> set (iter_markers it) \<and> mark_name m \<in> set valid_markers \<and> lacks_issue m)"
    then obtain m where m: "m \<in> set (iter_markers it)" "mark_name m \<in> set valid_markers" "lacks_issue m"
      by blast
    from h m have "\<exists>e. collect_item env st it = Inl e" for st
      by (intro collect_item_lacks) auto
    from collect_items_raises[OF assms(1) this,
        of "\<lparr>collected_data = [], deselect_data = [], test_modules = []\<rparr>"]
    have "\<exists>e. generate_issue_collection env items = Inl e"
      by (auto simp: generate_issue_collection_def)
    with Inr show False by simp
  qed
  with assms(2) obtain m where m: "get_closest_marker it ''skip_if_open'' = Some m" "lacks_issue m"
    by blast
  from generate_issue_collection_closest[OF Inr[unfolded r] assms(1)] m(1) obtain it' where
    "it' \<in> set items'" "get_closest_marker it' ''skip_if_open'' = Some m"
    by auto
  from select_items_lacks[OF this m(2)] Inr r show ?thesis
    by (simp add: pytest_collection_modifyitems_def)
qed

text \<open>The loop of \<open>generate_issue_collection\<close> leaves an item at its first \<open>continue\<close>
  when the item lies under \<open>tests/robottelo/\<close>, and at its second, with the module noted,
  when the item has no \<open>component\<close> marker. In both cases no marker of the item is read:
  the collected data and the deselection table stay as they are.\<close>

lemma collect_item_skips:
  assumes "prefix ''tests/robottelo/'' (nodeid it) \<or> get_closest_marker it ''component'' = None"
  shows "\<exists>ms. collect_item env st it = Inr (st\<lparr>test_modules := ms\<rparr>, it)"
proof (cases "prefix ''tests/robottelo/'' (nodeid it)")
  case True
  then have "collect_item env st it = Inr (st\<lparr>test_modules := test_modules st\<rparr>, it)"
    by (simp add: collect_item_def)
  then show ?thesis by blast
next
  case False
  with assms have "collect_item env st it =
      Inr (st\<lparr>test_modules := List.insert (item_module it) (test_modules st)\<rparr>, it)"
    by (simp add: collect_item_def Let_def)
  then show ?thesis by blast
qed

lemma collect_items_skips:
  assumes "\<forall>it \<in> set items. prefix ''tests/robottelo/'' (nodeid it) \<or>
             get_closest_marker it ''component'' = None"
  shows "\<exists>ms. collect_items env st items = Inr (st\<lparr>test_modules := ms\<rparr>, items)"
  using assms
proof (induction items arbitrary: st)
  case Nil
  have "collect_items env st [] = Inr (st\<lparr>test_modules := test_modules st\<rparr>, [])" by simp
  then show ?case by blast
next
  case (Cons x xs)
  from Cons.prems collect_item_skips[of x env st] obtain ms where
    x: "collect_item env st x = Inr (st\<lparr>test_modules := ms\<rparr>, x)"
    by auto
  from Cons.prems Cons.IH[of "st\<lparr>test_modules := ms\<rparr>"] obtain ms' where
    "collect_items env (st\<lparr>test_modules := ms\<rparr>) xs = Inr (st\<lparr>test_modules := ms'\<rparr>, xs)"
    by auto
  with x have "collect_items env st (x # xs) = Inr (st\<lparr>test_modules := ms'\<rparr>, x # xs)"
    by simp
  then show ?case by blast
qed

lemma add_deselect_markers_none: "add_deselect_markers env [] cd items = Inr (cd, items)"
  by (induction items) simp_all

lemma select_items_plain:
  assumes "\<forall>it \<in> set items. get_closest_marker it ''skip_if_open'' = None"
  shows "select_items env issues PNone PNone items = Inr (items, [])"
  using assms by (induction items) (simp_all add: py_or_def)

lemma collection_skips:
  assumes "\<forall>it \<in> set items.
             (prefix ''tests/robottelo/'' (nodeid it) \<or> get_closest_marker it ''component'' = None) \<and>
             get_closest_marker it ''skip_if_open'' = None"
    and "\<forall>modules. \<exists>cd. resolve_issues env modules [] = Inr cd"
  shows "pytest_collection_modifyitems env \<lparr>opt_BZ = None, opt_JR = None\<rparr> items = Inr (items, [])"
proof -
  from assms(1) collect_items_skips[of items env
      "\<lparr>collected_data = [], deselect_data = [], test_modules = []\<rparr>"]
  obtain ms where
    "collect_items env \<lparr>collected_data = [], deselect_data = [], test_modules = []\<rparr> items =
       Inr (\<lparr>collected_data = [], deselect_data = [], test_modules = ms\<rparr>, items)"
    by auto
  moreover from assms(2) obtain cd where "resolve_issues env ms [] = Inr cd" by blast
  ultimately have "generate_issue_collection env items = Inr (cd, items)"
    by (simp add: generate_issue_collection_def add_deselect_markers_none)
  with assms(1) show ?thesis
    by (simp add: pytest_collection_modifyitems_def split_filter_def select_items_plain)
qed

text \<open>
  C9, as the code has it. If the closest \<open>skip_if_open\<close> marker of a collected item has
  neither a \<open>reason\<close> keyword nor a positional argument, the hook raises. For the other
  markers of the allow-list (\<open>skip\<close>, \<open>deselect\<close>, a farther \<open>skip_if_open\<close>) it raises
  when the item lies outside \<open>tests/robottelo/\<close> and carries a \<open>component\<close> marker, which
  are the items whose markers \<open>generate_issue_collection\<close> reads. The markers of the other
  items are not read: when every item lies under \<open>tests/robottelo/\<close> or has no \<open>component\<close>
  marker, and none has a \<open>skip_if_open\<close> marker, then with no filter given and collected
  issues that resolve without error the hook returns all items as they are and deselects
  none, whatever \<open>skip\<close> or \<open>deselect\<close> markers they carry.
\<close>

theorem malformed_marker_raises:
  "(it \<in> set items \<and>
    ((\<exists>m. get_closest_marker it ''skip_if_open'' = Some m \<and> lacks_issue m) \<or>
     (\<not> prefix ''tests/robottelo/'' (nodeid it) \<and>
      get_closest_marker it ''component'' \<noteq> None \<and>
      (\<exists>m. m \<in> set (iter_markers it) \<and> mark_name m \<in> set valid_markers \<and> lacks_issue m))) \<longrightarrow>
      (\<exists>e. pytest_collection_modifyitems env cfg items = Inl e)) \<and>
   ((\<forall>it \<in> set items.
       (prefix ''tests/robottelo/'' (nodeid it) \<or> get_closest_marker it ''component'' = None) \<and>
       get_closest_marker it ''skip_if_open'' = None) \<and>
    (\<forall>modules. \<exists>cd. resolve_issues env modules [] = Inr cd) \<longrightarrow>
      pytest_collection_modifyitems env \<lparr>opt_BZ = None, opt_JR = None\<rparr> items = Inr (items, []))"
proof (intro conjI impI)
  assume "it \<in> set items \<and>
    ((\<exists>m. get_closest_marker it ''skip_if_open'' = Some m \<and> lacks_issue m) \<or>
     (\<not> prefix ''tests/robottelo/'' (nodeid it) \<and>
      get_closest_marker it ''component'' \<noteq> None \<and>
      (\<exists>m. m \<in> set (iter_markers it) \<and> mark_name m \<in> set valid_markers \<and> lacks_issue m)))"
  then show "\<exists>e. pytest_collection_modifyitems env cfg items = Inl e"
    using collection_raises[of it items env cfg] by blast
next
  assume "(\<forall>it \<in> set items.
       (prefix ''tests/robottelo/'' (nodeid it) \<or> get_closest_marker it ''component'' = None) \<and>
       get_closest_marker it ''skip_if_open'' = None) \<and>
    (\<forall>modules. \<exists>cd. resolve_issues env modules [] = Inr cd)"
  then show "pytest_collection_modifyitems env \<lparr>opt_BZ = None, opt_JR = None\<rparr> items = Inr (items, [])"
    using collection_skips[of items env] by blast
qed

text \<open>On items: a bare \<open>skip_if_open\<close> marker; a bare \<open>skip\<close> marker on a test with
  \<open>component\<close> marker outside the unit tests; and the same bare \<open>skip\<close> marker on a test
  without \<open>component\<close> marker and on a unit test.\<close>

theorem malformed_marker_raises_witness:
  "test_two \<in> set [test_one, test_two] \<and>
   get_closest_marker test_two ''skip_if_open'' = Some bare_skip_if_open \<and>
   lacks_issue bare_skip_if_open \<and>
   (\<exists>e. pytest_collection_modifyitems quiet_env \<lparr>opt_BZ = None, opt_JR = None\<rparr> [test_one, test_two] = Inl e) \<and>
   test_four \<in> set [test_one, test_four] \<and>
   \<not> prefix ''tests/robottelo/'' (nodeid test_four) \<and>
   get_closest_marker test_four ''component'' \<noteq> None \<and>
   bare_skip \<in> set (iter_markers test_four) \<and>
   mark_name bare_skip \<in> set valid_markers \<and>
   lacks_issue bare_skip \<and>
   (\<exists>e. pytest_collection_modifyitems quiet_env \<lparr>opt_BZ = None, opt_JR = None\<rparr> [test_one, test_four] = Inl e) \<and>
   get_closest_marker test_three ''component'' = None \<and>
   get_closest_marker test_three ''skip_if_open'' = None \<and>
   prefix ''tests/robottelo/'' (nodeid unit_test) \<and>
   get_closest_marker unit_test ''skip_if_open'' = None \<and>
   (\<forall>modules. resolve_issues quiet_env modules [] = Inr []) \<and>
   pytest_collection_modifyitems quiet_env \<lparr>opt_BZ = None, opt_JR = None\<rparr> [test_three, unit_test]
     = Inr ([test_three, unit_test], [])"
proof -
  have a: "test_two \<in> set [test_one, test_two]" by simp
  have b: "get_closest_marker test_two ''skip_if_open'' = Some bare_skip_if_open"
    by (simp add: get_closest_marker_def iter_markers_def test_two_def bare_skip_if_open_def)
  have c: "lacks_issue bare_skip_if_open" by (simp add: lacks_issue_def bare_skip_if_open_def)
  from malformed_marker_raises[of test_two "[test_one, test_two]" quiet_env
      "\<lparr>opt_BZ = None, opt_JR = None\<rparr>"] a b c
  have one: "\<exists>e. pytest_collection_modifyitems quiet_env \<lparr>opt_BZ = None, opt_JR = None\<rparr>
      [test_one, test_two] = Inl e"
    by blast
  have d: "test_four \<in> set [test_one, test_four]" by simp
  have e: "\<not> prefix ''tests/robottelo/'' (nodeid test_four)"
    by (simp add: test_four_def)
  have f: "get_closest_marker test_four ''component'' \<noteq> None"
    by (simp add: get_closest_marker_def iter_markers_def test_four_def bare_skip_def)
  have g: "bare_skip \<in> set (iter_markers test_four)"
    by (simp add: iter_markers_def test_four_def)
  have h: "mark_name bare_skip \<in> set valid_markers" "lacks_issue bare_skip"
    by (simp_all add: bare_skip_def valid_markers_def lacks_issue_def)
  from malformed_marker_raises[of test_four "[test_one, test_four]" quiet_env
      "\<lparr>opt_BZ = None, opt_JR = None\<rparr>"] d e f g h
  have two: "\<exists>e. pytest_collection_modifyitems quiet_env \<lparr>opt_BZ = None, opt_JR = None\<rparr>
      [test_one, test_four] = Inl e"
    by blast
  have i: "get_closest_marker test_three ''component'' = None"
    "get_closest_marker test_three ''skip_if_open'' = None"
    by (simp_all add: get_closest_marker_def iter_markers_def test_three_def bare_skip_def)
  have j: "prefix ''tests/robottelo/'' (nodeid unit_test)"
    by (simp add: unit_test_def)
  have k: "get_closest_marker unit_test ''skip_if_open'' = None"
    by (simp add: get_closest_marker_def iter_markers_def unit_test_def bare_skip_def)
  have l: "\<forall>modules. resolve_issues quiet_env modules [] = Inr []"
    by (simp add: quiet_env_def)
  from malformed_marker_raises[of _ "[test_three, unit_test]" quiet_env] i j k l
  have three: "pytest_collection_modifyitems quiet_env \<lparr>opt_BZ = None, opt_JR = None\<rparr>
      [test_three, unit_test] = Inr ([test_three, unit_test], [])"
    by simp
  from a b c one d e f g h two i j k l three show ?thesis by simp
qed

text \<open>A unit test of the suite that has a \<open>component\<close> marker, and a test outside the unit
  tests that has none, each with a bare \<open>skip\<close> marker, are collected without error: the
  loop of \<open>generate_issue_collection\<close> leaves the first at the \<open>continue\<close> of line 243 and
  the second at the one of line 264, before it reads their markers, and the hook looks at
  \<open>skip_if_open\<close> markers only.\<close>

theorem bare_skip_tolerated:
  "bare_skip \<in> set (iter_markers unit_test) \<and>
   bare_skip \<in> set (iter_markers test_three) \<and>
   mark_name bare_skip \<in> set valid_markers \<and>
   lacks_issue bare_skip \<and>
   get_closest_marker unit_test ''component'' \<noteq> None \<and>
   pytest_collection_modifyitems quiet_env \<lparr>opt_BZ = None, opt_JR = None\<rparr> [unit_test, test_three]
     = Inr ([unit_test, test_three], [])"
proof -
  have "pytest_collection_modifyitems quiet_env \<lparr>opt_BZ = None, opt_JR = None\<rparr> [unit_test, test_three]
     = Inr ([unit_test, test_three], [])"
    by code_simp
  then show ?thesis
    by (simp add: iter_markers_def unit_test_def test_three_def bare_skip_def valid_markers_def
        lacks_issue_def get_closest_marker_def)
qed

subsection \<open>Filtering by issue number\<close>

lemma item_marks_add_marker:
  "mark_name m \<noteq> name \<Longrightarrow> item_marks (add_marker it m) name = item_marks it name"
  by (simp add: item_marks_def closest_add_marker)

lemma py_set_strings: "py_set (PList (map PStr fs)) = Inr (map PStr fs)"
  by (simp add: py_set_def list_all_iff)

text \<open>With \<open>--BZ\<close> alone, an item whose \<open>BZ\<close> marks miss the filter is not deselected:
  the loop evaluates \<open>set(jr_filters)\<close> on \<open>None\<close> and raises.\<close>

lemma select_items_bz_alone:
  assumes "it \<in> set items" and "fs \<noteq> []"
    and "item_marks it ''BZ'' = Inr marks" and "\<not> intersects (map PStr fs) marks"
  shows "\<exists>e. select_items env issues (PList (map PStr fs)) PNone items = Inl e"
  using assms(1)
proof (induction items)
  case Nil
  then show ?case by simp
next
  case (Cons x xs)
  show ?case
  proof (cases "x = it")
    case True
    have r: "\<exists>e. ebind (item_marks it1 ''BZ'') (\<lambda>item_bz_marks.
           ebind (item_marks it1 ''JR'') (\<lambda>item_jr_marks.
             ebind (ebind (py_set (PList (map PStr fs))) (\<lambda>bz.
                      if intersects bz item_bz_marks then Inr True
                      else ebind (py_set PNone) (\<lambda>jr. Inr (intersects jr item_jr_marks))))
               k)) = Inl e"
      if "item_marks it1 ''BZ'' = Inr marks" for it1 k
      using that assms(4) by (cases "item_marks it1 ''JR''") (simp_all add: py_set_strings, simp add: py_set_def)
    show ?thesis
    proof (cases "get_closest_marker it ''skip_if_open''")
      case None
      with True assms(2) r[of it] assms(3) show ?thesis by (simp add: py_or_def)
    next
      case (Some m)
      show ?thesis
      proof (cases "ebind (marker_issue m) (\<lambda>issue.
                  ebind (is_open env issues issue) (\<lambda>opn.
                    Inr (add_marker it \<lparr>mark_name = ''skipif'', mark_args = [opn],
                                 mark_kwargs = [(''reason'', issue)]\<rparr>)))")
        case (Inl e)
        with True Some show ?thesis by simp
      next
        case (Inr it1)
        then obtain opn issue where "it1 = add_marker it \<lparr>mark_name = ''skipif'', mark_args = [opn],
                                 mark_kwargs = [(''reason'', issue)]\<rparr>"
          by (auto simp: ebind_def split: sum.splits)
        with assms(3) have "item_marks it1 ''BZ'' = Inr marks" by (simp add: item_marks_add_marker)
        from r[OF this] True Some Inr assms(2) show ?thesis by (simp add: py_or_def)
      qed
    qed
  next
    case False
    with Cons have "\<exists>e. select_items env issues (PList (map PStr fs)) PNone xs = Inl e" by simp
    then obtain e where e: "select_items env issues (PList (map PStr fs)) PNone xs = Inl e" by blast
    show ?thesis
      by (simp add: e ebind_def split: sum.splits option.splits)
  qed
qed

text \<open>
  C5. The test \<open>test_one\<close> gets the derived marker \<open>BZ('999')\<close>. Run with \<open>--BZ 123456\<close>
  and no \<open>--JR\<close>, the hook does not deselect it: \<open>set(bz_filters) & item_bz_marks\<close> is
  empty, so \<open>set(jr_filters)\<close> is evaluated with \<open>jr_filters = None\<close> and raises
  \<open>TypeError\<close>.
\<close>

theorem bz_filter_alone_raises:
  "pytest_collection_modifyitems quiet_env \<lparr>opt_BZ = Some ''123456'', opt_JR = None\<rparr> [test_one]
     = Inl TypeError"
  by code_simp

end
